theory Spec2Isabelle
  imports Complex_Main
begin

section \<open>Python values of a metadata record\<close>

text \<open>
  A record is what \<open>json.load\<close> returns for a sidecar file: a dictionary from field
  names to loosely typed values. The values are Python's \<open>None\<close>, booleans, integers,
  floats (idealised as rationals: rounding, infinities and NaN are not modelled),
  strings and lists. Objects nested inside a record are outside the data model.
\<close>

datatype pyval =
    PNone
  | PBool bool
  | PInt int
  | PFloat rat
  | PStr string
  | PList "pyval list"

type_synonym pydict = "string \<rightharpoonup> pyval"

text \<open>
  Python's numeric tower: \<open>bool\<close> is a subtype of \<open>int\<close>, and integers and floats
  compare by value. Everything else is not a number.
\<close>

fun py_num :: "pyval \<Rightarrow> rat option" where
  "py_num (PBool b) = Some (if b then 1 else 0)"
| "py_num (PInt i) = Some (of_int i)"
| "py_num (PFloat r) = Some r"
| "py_num _ = None"

text \<open>
  Python's \<open>==\<close>: numbers compare by value across \<open>bool\<close>, \<open>int\<close> and \<open>float\<close>, strings
  by content, lists element by element; values of unrelated types are unequal.
\<close>

fun py_eq :: "pyval \<Rightarrow> pyval \<Rightarrow> bool" where
  "py_eq PNone y = (y = PNone)"
| "py_eq (PStr s) y = (y = PStr s)"
| "py_eq (PList xs) (PList ys) = list_all2 py_eq xs ys"
| "py_eq (PList xs) _ = False"
| "py_eq x y = (case py_num x of None \<Rightarrow> False | Some a \<Rightarrow> py_num y = Some a)"

text \<open>Python's \<open>x in xs\<close> on a list: some element is \<open>==\<close> to \<open>x\<close>.\<close>

definition py_in :: "pyval \<Rightarrow> pyval list \<Rightarrow> bool" where
  "py_in x xs = list_ex (\<lambda>y. py_eq x y) xs"

text \<open>Python's truth value of an object, as \<open>if x:\<close> and \<open>not x\<close> test it.\<close>

fun truthy :: "pyval \<Rightarrow> bool" where
  "truthy PNone = False"
| "truthy (PBool b) = b"
| "truthy (PInt i) = (i \<noteq> 0)"
| "truthy (PFloat r) = (r \<noteq> 0)"
| "truthy (PStr s) = (s \<noteq> [])"
| "truthy (PList xs) = (xs \<noteq> [])"

text \<open>\<open>data.get(key)\<close> and \<open>data.get(key, default)\<close>.\<close>

definition dict_get :: "pydict \<Rightarrow> string \<Rightarrow> pyval" where
  "dict_get data key = (case data key of None \<Rightarrow> PNone | Some v \<Rightarrow> v)"

definition dict_get_default :: "pydict \<Rightarrow> string \<Rightarrow> pyval \<Rightarrow> pyval" where
  "dict_get_default data key dflt = (case data key of None \<Rightarrow> dflt | Some v \<Rightarrow> v)"

text \<open>
  An ordering comparison of a value with a number (\<open>x < 0\<close>, \<open>x > 100\<close>) raises
  \<open>TypeError\<close> unless the value is a number.
\<close>

datatype exn = TypeError

text \<open>
  Messages are strings. The one message that interpolates its input keeps the input as
  an argument instead of its printed form.
\<close>

datatype message = Text string | InvalidASLType pyval

section \<open>Domain rule functions (\<open>utils.py\<close>)\<close>

definition MIN_PAIRS_WARNING_THRESHOLD :: int where "MIN_PAIRS_WARNING_THRESHOLD = 0"
definition MAX_PAIRS_WARNING_THRESHOLD :: int where "MAX_PAIRS_WARNING_THRESHOLD = 10"
definition MIN_PAIRS_ERROR_THRESHOLD :: int where "MIN_PAIRS_ERROR_THRESHOLD = - 1"
definition MAX_PAIRS_ERROR_THRESHOLD :: int where "MAX_PAIRS_ERROR_THRESHOLD = 100"
definition VOXEL_SIZE_MIN_WARNING_THRESHOLD :: int where "VOXEL_SIZE_MIN_WARNING_THRESHOLD = 1"
definition VOXEL_SIZE_MAX_WARNING_THRESHOLD :: int where "VOXEL_SIZE_MAX_WARNING_THRESHOLD = 10"
definition VOXEL_SIZE_MIN_ERROR_THRESHOLD :: int where "VOXEL_SIZE_MIN_ERROR_THRESHOLD = 0"
definition VOXEL_SIZE_MAX_ERROR_THRESHOLD :: int where "VOXEL_SIZE_MAX_ERROR_THRESHOLD = 100"

definition VALID_ASL_TYPES :: "pyval list" where
  "VALID_ASL_TYPES = [PStr ''PASL'', PStr ''PCASL'', PStr ''(P)CASL'', PStr ''Velocity-selective'']"

definition MIN_LABELING_DURATION_WARNING :: int where "MIN_LABELING_DURATION_WARNING = 1"
definition MAX_LABELING_DURATION_WARNING :: int where "MAX_LABELING_DURATION_WARNING = 10"
definition MIN_LABELING_DURATION_ERROR :: int where "MIN_LABELING_DURATION_ERROR = 0"
definition MAX_LABELING_DURATION_ERROR :: int where "MAX_LABELING_DURATION_ERROR = 100"
definition MIN_POST_LABELING_DELAY_WARNING :: int where "MIN_POST_LABELING_DELAY_WARNING = 1"
definition MAX_POST_LABELING_DELAY_WARNING :: int where "MAX_POST_LABELING_DELAY_WARNING = 10"
definition MIN_POST_LABELING_DELAY_ERROR :: int where "MIN_POST_LABELING_DELAY_ERROR = 0"
definition MAX_POST_LABELING_DELAY_ERROR :: int where "MAX_POST_LABELING_DELAY_ERROR = 100"

definition MIN_INVERSION_TIME_ERROR_THRESHOLD :: int where
  "MIN_INVERSION_TIME_ERROR_THRESHOLD = 0"

text \<open>
  Each rule function returns \<open>(errors, warnings, value)\<close>. The functions that order their
  argument against a threshold raise \<open>TypeError\<close> when it is not a number, so their
  result is a sum with the exception on the left.
\<close>

type_synonym rule_result = "message list \<times> message list \<times> pyval"

definition validate_asl_type :: "pyval \<Rightarrow> rule_result" where
  "validate_asl_type asl_type =
     (if \<not> py_in asl_type VALID_ASL_TYPES
      then ([InvalidASLType asl_type], [], asl_type)
      else ([], [], asl_type))"

definition validate_background_suppression :: "pyval \<Rightarrow> rule_result" where
  "validate_background_suppression bs =
     ((if \<not> py_in bs [PBool True, PBool False]
       then [Text ''Missing or invalid 'BackgroundSuppression' (should be True or False)'']
       else []),
      [],
      (if truthy bs then PStr ''Yes'' else PStr ''No''))"

definition validate_m0b_method :: "pyval \<Rightarrow> rule_result" where
  "validate_m0b_method m0b_method =
     ((if \<not> truthy m0b_method
       then [Text (''Missing or invalid 'Method for M0b estimation'' @ [CHR 0x27])]
       else []),
      [],
      m0b_method)"

definition validate_total_pairs :: "pyval \<Rightarrow> exn + rule_result" where
  "validate_total_pairs total_pairs =
     (case py_num total_pairs of
        None \<Rightarrow> Inl TypeError
      | Some n \<Rightarrow>
          if n < of_int MIN_PAIRS_ERROR_THRESHOLD \<or> n > of_int MAX_PAIRS_ERROR_THRESHOLD
          then Inr ([Text '''TotalAcquiredPairs' out of valid range (-1-100)''], [], total_pairs)
          else if n = 0 \<or> n > of_int MAX_PAIRS_WARNING_THRESHOLD
          then Inr ([],
                    [Text '''TotalAcquiredPairs' is 0 or greater than 10, which may be unusual''],
                    total_pairs)
          else Inr ([], [], total_pairs))"

text \<open>
  The loop of \<open>validate_voxel_size\<close> over the three sizes: each size appends at most one
  message, an error or else a warning, and a size that is not a number raises.
\<close>

fun voxel_size_loop ::
  "pyval list \<Rightarrow> message list \<Rightarrow> message list \<Rightarrow> exn + (message list \<times> message list)" where
  "voxel_size_loop [] errors warnings = Inr (errors, warnings)"
| "voxel_size_loop (sz # rest) errors warnings =
     (case py_num sz of
        None \<Rightarrow> Inl TypeError
      | Some s \<Rightarrow>
          if s < of_int VOXEL_SIZE_MIN_ERROR_THRESHOLD \<or> s > of_int VOXEL_SIZE_MAX_ERROR_THRESHOLD
          then voxel_size_loop rest
                 (errors @ [Text '''AcquisitionVoxelSize' out of valid range (0-100)'']) warnings
          else if s < of_int VOXEL_SIZE_MIN_WARNING_THRESHOLD
                  \<or> s > of_int VOXEL_SIZE_MAX_WARNING_THRESHOLD
          then voxel_size_loop rest errors
                 (warnings @
                  [Text '''AcquisitionVoxelSize' is in a warning range (0-1 or 10-100)''])
          else voxel_size_loop rest errors warnings)"

definition validate_voxel_size :: "pyval \<Rightarrow> exn + rule_result" where
  "validate_voxel_size voxel_size =
     (case voxel_size of
        PList sizes \<Rightarrow>
          if length sizes \<noteq> 3
          then Inr ([Text ''Invalid 'AcquisitionVoxelSize' (should be a list of 3 numbers)''],
                    [], voxel_size)
          else (case voxel_size_loop sizes [] [] of
                  Inl x \<Rightarrow> Inl x
                | Inr (errors, warnings) \<Rightarrow> Inr (errors, warnings, voxel_size))
      | _ \<Rightarrow>
          Inr ([Text ''Invalid 'AcquisitionVoxelSize' (should be a list of 3 numbers)''],
               [], voxel_size))"

definition validate_recommended_parameters ::
  "pydict \<Rightarrow> message list \<times> message list \<times> pydict" where
  "validate_recommended_parameters data =
     (let values = Map.empty;
          values =
            (if truthy (dict_get data ''BackgroundSuppression'')
             then values
               (''NumberOfBackgroundSuppressionPulses'' \<mapsto>
                  dict_get_default data ''BackgroundSuppressionNumberPulses'' (PStr ''Not provided''),
                ''BackgroundSuppressionPulseTiming'' \<mapsto>
                  dict_get_default data ''BackgroundSuppressionPulseTime'' (PStr ''Not provided''),
                ''BackgroundSuppressionTimingDefinition'' \<mapsto>
                  dict_get_default data ''BackgroundSuppressionTimingDefinition''
                    (PStr ''Not provided''))
             else values
               (''NumberOfBackgroundSuppressionPulses'' \<mapsto> PStr ''Not applicable'',
                ''BackgroundSuppressionPulseTiming'' \<mapsto> PStr ''Not applicable'',
                ''BackgroundSuppressionTimingDefinition'' \<mapsto> PStr ''Not applicable''));
          values = values
            (''LabelingLocationDescription'' \<mapsto>
               dict_get_default data ''LabelingLocationDescription'' (PStr ''Not provided''),
             ''ShimVolume'' \<mapsto> dict_get_default data ''ShimVolume'' (PStr ''Not provided''));
          values =
            (if truthy (dict_get data ''VascularCrushing'')
             then values
               (''Venc'' \<mapsto> dict_get_default data ''Venc'' (PStr ''Not provided''),
                ''b'' \<mapsto> dict_get_default data ''b'' (PStr ''Not provided''))
             else values
               (''Venc'' \<mapsto> PStr ''Not applicable'', ''b'' \<mapsto> PStr ''Not applicable''))
      in ([], [], values))"

definition validate_labeling_duration :: "pyval \<Rightarrow> exn + rule_result" where
  "validate_labeling_duration labeling_duration =
     (case py_num labeling_duration of
        None \<Rightarrow> Inl TypeError
      | Some d \<Rightarrow>
          if d < of_int MIN_LABELING_DURATION_ERROR \<or> d > of_int MAX_LABELING_DURATION_ERROR
          then Inr ([Text '''LabelingDuration' out of valid range (0-100)''], [], labeling_duration)
          else if d < of_int MIN_LABELING_DURATION_WARNING
                  \<or> d > of_int MAX_LABELING_DURATION_WARNING
          then Inr ([],
                    [Text '''LabelingDuration' is less than 1 or greater than 10, which may be unusual''],
                    labeling_duration)
          else Inr ([], [], labeling_duration))"

definition validate_post_labeling_delay :: "pyval \<Rightarrow> exn + rule_result" where
  "validate_post_labeling_delay post_labeling_delay =
     (case py_num post_labeling_delay of
        None \<Rightarrow> Inl TypeError
      | Some d \<Rightarrow>
          if d < of_int MIN_POST_LABELING_DELAY_ERROR \<or> d > of_int MAX_POST_LABELING_DELAY_ERROR
          then Inr ([Text '''PostLabelingDelay' out of valid range (0-100)''], [],
                    post_labeling_delay)
          else if d < of_int MIN_POST_LABELING_DELAY_WARNING
                  \<or> d > of_int MAX_POST_LABELING_DELAY_WARNING
          then Inr ([],
                    [Text '''PostLabelingDelay' is less than 1 or greater than 10, which may be unusual''],
                    post_labeling_delay)
          else Inr ([], [], post_labeling_delay))"

text \<open>
  The warning branch of \<open>validate_inversion_time\<close> is a string literal in the source, not
  code: only the error check runs.
\<close>

definition validate_inversion_time :: "pyval \<Rightarrow> exn + rule_result" where
  "validate_inversion_time inversion_time =
     (case py_num inversion_time of
        None \<Rightarrow> Inl TypeError
      | Some t \<Rightarrow>
          if t \<le> of_int MIN_INVERSION_TIME_ERROR_THRESHOLD
          then Inr ([Text '''InversionTime' not greater than 0''], [], inversion_time)
          else Inr ([], [], inversion_time))"

section \<open>Domain rule entry points (\<open>info_extraction_from_json.py\<close>)\<close>

type_synonym group_result = "message list \<times> message list \<times> pydict"

text \<open>
  \<open>verify_general_parameters\<close> runs the five general rules in order, each on the field's
  value or on its default, extends the two lists and stores the returned value.
\<close>

definition verify_general_parameters :: "pydict \<Rightarrow> exn + group_result" where
  "verify_general_parameters data =
     (let (e1, w1, v1) =
            validate_asl_type (dict_get_default data ''ArterialSpinLabelingType'' (PStr ''''));
          (e2, w2, v2) = validate_background_suppression (dict_get data ''BackgroundSuppression'');
          (e3, w3, v3) = validate_m0b_method (dict_get_default data ''M0Type'' (PStr ''''))
      in case validate_total_pairs (dict_get_default data ''TotalAcquiredPairs'' (PInt (- 1))) of
           Inl x \<Rightarrow> Inl x
         | Inr (e4, w4, v4) \<Rightarrow>
             (case validate_voxel_size (dict_get_default data ''AcquisitionVoxelSize'' (PList [])) of
                Inl x \<Rightarrow> Inl x
              | Inr (e5, w5, v5) \<Rightarrow>
                  Inr (e1 @ e2 @ e3 @ e4 @ e5,
                       w1 @ w2 @ w3 @ w4 @ w5,
                       Map.empty
                         (''ArterialSpinLabelingType'' \<mapsto> v1,
                          ''BackgroundSuppression'' \<mapsto> v2,
                          ''MethodForM0bEstimation'' \<mapsto> v3,
                          ''TotalAcquiredPairs'' \<mapsto> v4,
                          ''AcquisitionVoxelSize'' \<mapsto> v5))))"





section \<open>The schema-driven engine (\<open>json_validation.py\<close>)\<close>

text \<open>
  A field validator is an object of the validator module, which the engine uses through
  one method only: \<open>validate(raw)\<close> returns a pair \<open>(error, warning)\<close>, each tested for
  truth by the engine. The engine is modelled over any such method.
\<close>

type_synonym validator = "pyval \<Rightarrow> pyval \<times> pyval"

text \<open>
  A condition of a condition schema is any Python object: a dictionary from controlling
  fields to expected values, or something that is not a dictionary (the string \<open>"all"\<close>,
  among others).
\<close>

datatype condition = CondValue pyval | CondDict "(string \<times> pyval) list"

text \<open>The \<open>for\<close> loop of \<open>should_apply_validation\<close> over the entries of a dictionary.\<close>

fun condition_entries_hold :: "pydict \<Rightarrow> (string \<times> pyval) list \<Rightarrow> bool" where
  "condition_entries_hold data [] = True"
| "condition_entries_hold data ((key, val) # rest) =
     (case val of
        PList acceptable \<Rightarrow>
          if \<not> py_in (dict_get data key) acceptable then False
          else condition_entries_hold data rest
      | _ \<Rightarrow>
          if \<not> py_eq (dict_get data key) val then False
          else condition_entries_hold data rest)"

fun should_apply_validation :: "pydict \<Rightarrow> condition \<Rightarrow> bool" where
  "should_apply_validation data (CondValue c) = (if py_eq c (PStr ''all'') then True else True)"
| "should_apply_validation data (CondDict entries) = condition_entries_hold data entries"

text \<open>
  The engine holds its four schema dictionaries. A validator schema is iterated with
  \<open>items()\<close>, so it is the list of its entries in insertion order; as the keys of a
  dictionary, the field names of such a list are distinct.
\<close>

record JSONValidator =
  required_validator_schema :: "(string \<times> validator) list"
  required_condition_schema :: "string \<rightharpoonup> condition"
  recommended_validator_schema :: "(string \<times> validator) list"
  recommended_condition_schema :: "string \<rightharpoonup> condition"

text \<open>\<open>condition_schema.get(field, "all")\<close>: a field without a condition always applies.\<close>

definition condition_of :: "(string \<rightharpoonup> condition) \<Rightarrow> string \<Rightarrow> condition" where
  "condition_of condition_schema field =
     (case condition_schema field of None \<Rightarrow> CondValue (PStr ''all'') | Some c \<Rightarrow> c)"

text \<open>The three output dictionaries \<open>errors\<close>, \<open>warnings\<close> and \<open>values\<close>.\<close>

type_synonym outputs = "pydict \<times> pydict \<times> pydict"

text \<open>The body of the loop of \<open>apply_schema\<close>, for one schema entry.\<close>

definition apply_field ::
  "(string \<rightharpoonup> condition) \<Rightarrow> pydict \<Rightarrow> bool \<Rightarrow> string \<times> validator \<Rightarrow> outputs \<Rightarrow> outputs" where
  "apply_field condition_schema data is_required entry out =
     (case (entry, out) of ((field, validator), (errors, warnings, values)) \<Rightarrow>
        let condition = condition_of condition_schema field
        in if should_apply_validation data condition then
             if data field = None \<and> is_required
             then (errors(field \<mapsto> PStr ''Missing required parameter''), warnings, values)
             else if data field \<noteq> None
             then (let (error, warning) = validator (the (data field))
                   in ((if truthy error then errors(field \<mapsto> error) else errors),
                       (if truthy warning then warnings(field \<mapsto> warning) else warnings),
                       values(field \<mapsto> the (data field))))
             else if \<not> is_required
             then (errors, warnings, values(field \<mapsto> PStr ''Recommended to be specified''))
             else (errors, warnings, values)
           else (errors, warnings, values))"

fun apply_schema ::
  "(string \<times> validator) list \<Rightarrow> (string \<rightharpoonup> condition) \<Rightarrow> pydict \<Rightarrow> outputs \<Rightarrow> bool
     \<Rightarrow> outputs" where
  "apply_schema [] condition_schema data out is_required = out"
| "apply_schema (entry # rest) condition_schema data out is_required =
     apply_schema rest condition_schema data
       (apply_field condition_schema data is_required entry out) is_required"

definition validate :: "JSONValidator \<Rightarrow> pydict \<Rightarrow> outputs" where
  "validate self data =
     (let out = (Map.empty, Map.empty, Map.empty);
          out = apply_schema (required_validator_schema self) (required_condition_schema self)
                  data out True;
          out = apply_schema (recommended_validator_schema self)
                  (recommended_condition_schema self) data out False
      in out)"

text \<open>The three components of a result.\<close>

definition errors_of :: "'a \<times> 'b \<times> 'c \<Rightarrow> 'a" where "errors_of r = fst r"
definition warnings_of :: "'a \<times> 'b \<times> 'c \<Rightarrow> 'b" where "warnings_of r = fst (snd r)"
definition values_of :: "'a \<times> 'b \<times> 'c \<Rightarrow> 'c" where "values_of r = snd (snd r)"

section \<open>Notions of the specification\<close>

text \<open>
  One entry \<open>{controlling_field: expected}\<close> of a condition, in the specification's
  words: a list of acceptable values passes by membership of the record's value, any
  other expected value passes by equality.
\<close>

definition entry_passes :: "pydict \<Rightarrow> string \<Rightarrow> pyval \<Rightarrow> bool" where
  "entry_passes data controlling_field expected =
     (case expected of
        PList acceptable \<Rightarrow> py_in (dict_get data controlling_field) acceptable
      | _ \<Rightarrow> py_eq (dict_get data controlling_field) expected)"

text \<open>
  The two bands of one voxel size: outside the hard range \<open>[0, 100]\<close>, and inside it but
  outside the usual range \<open>[1, 10]\<close>.
\<close>

definition voxel_size_error :: "pyval \<Rightarrow> bool" where
  "voxel_size_error sz =
     (case py_num sz of None \<Rightarrow> False | Some s \<Rightarrow> s < 0 \<or> s > 100)"

definition voxel_size_warning :: "pyval \<Rightarrow> bool" where
  "voxel_size_warning sz =
     (case py_num sz of None \<Rightarrow> False | Some s \<Rightarrow> 0 \<le> s \<and> s \<le> 100 \<and> (s < 1 \<or> s > 10))"

text \<open>
  Modelled from the spec: the Boolean field validator of the module \<open>validator\<close>, which
  \<open>json_validation.py\<close> imports and whose source is missing. The specification says that
  it "errors unless raw is exactly true or false" and has no warning; the engine unpacks
  the result as the pair \<open>(error, warning)\<close>. The wording of the message is not given.
\<close>

definition BooleanValidator :: validator where
  "BooleanValidator raw =
     (case raw of
        PBool b \<Rightarrow> (PNone, PNone)
      | _ \<Rightarrow> (PStr ''Value must be true or false'', PNone))"

text \<open>
  The fields a schema lists, and whether a field's condition holds on a record, for the
  required and for the recommended schema of an engine.
\<close>

definition required_fields :: "JSONValidator \<Rightarrow> string set" where
  "required_fields self = fst ` set (required_validator_schema self)"

definition recommended_fields :: "JSONValidator \<Rightarrow> string set" where
  "recommended_fields self = fst ` set (recommended_validator_schema self)"

definition required_applies :: "JSONValidator \<Rightarrow> pydict \<Rightarrow> string \<Rightarrow> bool" where
  "required_applies self data field =
     should_apply_validation data (condition_of (required_condition_schema self) field)"

definition recommended_applies :: "JSONValidator \<Rightarrow> pydict \<Rightarrow> string \<Rightarrow> bool" where
  "recommended_applies self data field =
     should_apply_validation data (condition_of (recommended_condition_schema self) field)"

text \<open>The outputs after the first of the two passes of \<open>validate\<close>, over the required schema.\<close>

definition required_pass :: "JSONValidator \<Rightarrow> pydict \<Rightarrow> outputs" where
  "required_pass self data =
     apply_schema (required_validator_schema self) (required_condition_schema self) data
       (Map.empty, Map.empty, Map.empty) True"







text \<open>
  The record field that an error message of \<open>verify_general_parameters\<close> is about, and the
  errors of a list that are about one field.
\<close>

definition message_field :: "message \<Rightarrow> string" where
  "message_field m =
     (case m of
        InvalidASLType _ \<Rightarrow> ''ArterialSpinLabelingType''
      | Text s \<Rightarrow>
          if s = ''Missing or invalid 'BackgroundSuppression' (should be True or False)''
          then ''BackgroundSuppression''
          else if s = ''Missing or invalid 'Method for M0b estimation'' @ [CHR 0x27]
          then ''M0Type''
          else if s = '''TotalAcquiredPairs' out of valid range (-1-100)''
          then ''TotalAcquiredPairs''
          else if s = ''Invalid 'AcquisitionVoxelSize' (should be a list of 3 numbers)''
                  \<or> s = '''AcquisitionVoxelSize' out of valid range (0-100)''
          then ''AcquisitionVoxelSize''
          else '''')"

definition errors_about :: "string \<Rightarrow> message list \<Rightarrow> message list" where
  "errors_about field errors = filter (\<lambda>m. message_field m = field) errors"

text \<open>
  The records on which \<open>verify_general_parameters\<close> cannot order a value: the total pairs
  (or their default) are not a number, or a list of three voxel sizes holds a value that
  is not a number.
\<close>

definition unorderable_general_parameter :: "pydict \<Rightarrow> bool" where
  "unorderable_general_parameter data \<longleftrightarrow>
     py_num (dict_get_default data ''TotalAcquiredPairs'' (PInt (- 1))) = None
     \<or> (case dict_get_default data ''AcquisitionVoxelSize'' (PList []) of
          PList sizes \<Rightarrow> length sizes = 3 \<and> list_ex (\<lambda>s. py_num s = None) sizes
        | _ \<Rightarrow> False)"

section \<open>Auxiliary facts\<close>

lemma ran_upd_subset: "ran m \<subseteq> S \<Longrightarrow> v \<in> S \<Longrightarrow> ran (m(k \<mapsto> v)) \<subseteq> S"
  by (auto simp: ran_def split: if_splits)

lemma dict_get_default_in: "d \<in> S \<Longrightarrow> ran data \<subseteq> S \<Longrightarrow> dict_get_default data k d \<in> S"
  by (auto simp: dict_get_default_def ran_def split: option.splits)

section \<open>The rule functions\<close>

text \<open>
  C6. \<open>validate_total_pairs\<close> on an integer \<open>v\<close> returns normally with \<open>v\<close> unchanged; it
  reports an error exactly when \<open>v < -1\<close> or \<open>v > 100\<close>, and a warning exactly when it
  reports no error and \<open>v = 0\<close> or \<open>v > 10\<close>.
\<close>

theorem validate_total_pairs_spec:
  "\<exists>errors warnings.
     validate_total_pairs (PInt v) = Inr (errors, warnings, PInt v)
     \<and> (errors \<noteq> [] \<longleftrightarrow> v < - 1 \<or> v > 100)
     \<and> (warnings \<noteq> [] \<longleftrightarrow> errors = [] \<and> (v = 0 \<or> v > 10))"
  by (simp add: validate_total_pairs_def MIN_PAIRS_ERROR_THRESHOLD_def
      MAX_PAIRS_ERROR_THRESHOLD_def MAX_PAIRS_WARNING_THRESHOLD_def)

text \<open>
  C8. \<open>validate_inversion_time\<close> on a number \<open>v\<close> of value \<open>t\<close> returns normally with \<open>v\<close>
  unchanged and with no warning; it reports an error exactly when \<open>t \<le> 0\<close>.
\<close>

theorem validate_inversion_time_spec:
  "py_num v = Some t \<Longrightarrow>
   \<exists>errors. validate_inversion_time v = Inr (errors, [], v) \<and> (errors \<noteq> [] \<longleftrightarrow> t \<le> 0)"
  by (simp add: validate_inversion_time_def MIN_INVERSION_TIME_ERROR_THRESHOLD_def)

theorem validate_inversion_time_spec_witness:
  "py_num (PFloat (- 3 / 2)) = Some (- 3 / 2)
   \<and> (\<exists>errors. validate_inversion_time (PFloat (- 3 / 2)) = Inr (errors, [], PFloat (- 3 / 2))
        \<and> (errors \<noteq> [] \<longleftrightarrow> (- 3 / 2 :: rat) \<le> 0))"
  using validate_inversion_time_spec [of "PFloat (- 3 / 2)" "- 3 / 2"] by simp

text \<open>
  C9. \<open>validate_recommended_parameters\<close> returns no error and no warning for any record.
  It fills exactly seven keys of the values dictionary, each with a value of the record
  or with one of the sentinels \<open>"Not provided"\<close> and \<open>"Not applicable"\<close>.
\<close>

theorem validate_recommended_parameters_silent:
  "errors_of (validate_recommended_parameters data) = []
   \<and> warnings_of (validate_recommended_parameters data) = []
   \<and> dom (values_of (validate_recommended_parameters data)) =
       {''b'', ''Venc'', ''ShimVolume'', ''LabelingLocationDescription'',
        ''BackgroundSuppressionTimingDefinition'', ''BackgroundSuppressionPulseTiming'',
        ''NumberOfBackgroundSuppressionPulses''}
   \<and> ran (values_of (validate_recommended_parameters data))
       \<subseteq> ran data \<union> {PStr ''Not provided'', PStr ''Not applicable''}"
proof (intro conjI)
  show "errors_of (validate_recommended_parameters data) = []"
    by (simp add: validate_recommended_parameters_def errors_of_def Let_def)
  show "warnings_of (validate_recommended_parameters data) = []"
    by (simp add: validate_recommended_parameters_def warnings_of_def Let_def)
  show "dom (values_of (validate_recommended_parameters data)) =
       {''b'', ''Venc'', ''ShimVolume'', ''LabelingLocationDescription'',
        ''BackgroundSuppressionTimingDefinition'', ''BackgroundSuppressionPulseTiming'',
        ''NumberOfBackgroundSuppressionPulses''}"
    by (cases "truthy (dict_get data ''BackgroundSuppression'')";
        cases "truthy (dict_get data ''VascularCrushing'')")
       (simp_all only: validate_recommended_parameters_def values_of_def Let_def snd_conv
          if_True if_False dom_fun_upd dom_empty option.simps)
  show "ran (values_of (validate_recommended_parameters data))
       \<subseteq> ran data \<union> {PStr ''Not provided'', PStr ''Not applicable''}"
    apply (cases "truthy (dict_get data ''BackgroundSuppression'')";
        cases "truthy (dict_get data ''VascularCrushing'')")
       apply (simp_all only: validate_recommended_parameters_def values_of_def Let_def snd_conv
          if_True if_False)
       apply (intro ran_upd_subset dict_get_default_in; auto)+
    done
qed

section \<open>The condition evaluator\<close>

text \<open>
  C10. A condition that is not a dictionary, whether the string \<open>"all"\<close> or any other
  value, evaluates to true on every record, and so does the empty dictionary.
\<close>

theorem should_apply_validation_unrecognised:
  "should_apply_validation data (CondValue c) \<and> should_apply_validation data (CondDict [])"
  by simp

lemma condition_entries_hold_Cons:
  "condition_entries_hold data ((key, expected) # rest) \<longleftrightarrow>
     entry_passes data key expected \<and> condition_entries_hold data rest"
  by (cases expected) (simp_all add: entry_passes_def)

lemma condition_entries_hold_iff:
  "condition_entries_hold data entries \<longleftrightarrow>
     (\<forall>(key, expected) \<in> set entries. entry_passes data key expected)"
proof (induction entries)
  case Nil
  show ?case by simp
next
  case (Cons entry entries)
  obtain key expected where entry: "entry = (key, expected)"
    by (cases entry)
  show ?case
    unfolding entry condition_entries_hold_Cons Cons.IH by simp
qed

lemma py_in_None: "py_in PNone xs \<longleftrightarrow> PNone \<in> set xs"
  by (auto simp: py_in_def list_ex_iff)

lemma entry_passes_absent:
  "data key = None \<Longrightarrow>
     entry_passes data key expected \<longleftrightarrow>
       expected = PNone \<or> (\<exists>acceptable. expected = PList acceptable \<and> PNone \<in> set acceptable)"
  by (cases expected) (auto simp: entry_passes_def dict_get_def py_in_None)

text \<open>
  C7, as stated, fails: a controlling field that the record lacks is read as \<open>None\<close>, and
  \<open>None\<close> matches an expected value \<open>None\<close>. The record below has no \<open>VascularCrushing\<close>,
  yet the condition \<open>{"VascularCrushing": None}\<close> holds on it.
\<close>

theorem absent_field_matches_None:
  "(Map.empty(''ArterialSpinLabelingType'' \<mapsto> PStr ''PASL'')) ''VascularCrushing'' = None
   \<and> should_apply_validation (Map.empty(''ArterialSpinLabelingType'' \<mapsto> PStr ''PASL''))
        (CondDict [(''VascularCrushing'', PNone)])"
  by (simp add: dict_get_def)

text \<open>
  C7, amended. A condition given as a dictionary holds exactly when every entry passes,
  a list of acceptable values by membership of the record's value and any other expected
  value by equality. A controlling field absent from the record is read as \<open>None\<close>: its
  entry passes exactly when the expected value is \<open>None\<close> or a list that contains \<open>None\<close>,
  so it never matches \<open>false\<close> nor any other value.
\<close>

theorem should_apply_validation_conjunction:
  "(should_apply_validation data (CondDict entries) \<longleftrightarrow>
      (\<forall>(key, expected) \<in> set entries. entry_passes data key expected))
   \<and> (data key = None \<longrightarrow>
        (entry_passes data key expected \<longleftrightarrow>
           expected = PNone
           \<or> (\<exists>acceptable. expected = PList acceptable \<and> PNone \<in> set acceptable)))
   \<and> (data key = None \<longrightarrow> \<not> entry_passes data key (PBool False))"
  using condition_entries_hold_iff [of data entries] entry_passes_absent [of data key]
  by simp

theorem should_apply_validation_conjunction_witness:
  "(Map.empty(''ArterialSpinLabelingType'' \<mapsto> PStr ''PCASL'')) ''BackgroundSuppression'' = None
   \<and> \<not> entry_passes (Map.empty(''ArterialSpinLabelingType'' \<mapsto> PStr ''PCASL''))
          ''BackgroundSuppression'' (PBool False)
   \<and> entry_passes (Map.empty(''ArterialSpinLabelingType'' \<mapsto> PStr ''PCASL''))
          ''ArterialSpinLabelingType'' (PList [PStr ''PCASL'', PStr ''CASL''])
   \<and> \<not> should_apply_validation (Map.empty(''ArterialSpinLabelingType'' \<mapsto> PStr ''PCASL''))
          (CondDict [(''ArterialSpinLabelingType'', PList [PStr ''PCASL'', PStr ''CASL'']),
                     (''BackgroundSuppression'', PBool False)])"
  using should_apply_validation_conjunction
      [of "Map.empty(''ArterialSpinLabelingType'' \<mapsto> PStr ''PCASL'')"
        "[(''ArterialSpinLabelingType'', PList [PStr ''PCASL'', PStr ''CASL'']),
          (''BackgroundSuppression'', PBool False)]"
        "''BackgroundSuppression''" "PBool False"]
  by (simp add: entry_passes_def dict_get_def py_in_def)

section \<open>Errors and warnings of one field\<close>

lemma voxel_size_loop_Cons:
  "py_num sz = Some s \<Longrightarrow>
   voxel_size_loop (sz # rest) es ws =
     voxel_size_loop rest
       (if voxel_size_error sz
        then es @ [Text '''AcquisitionVoxelSize' out of valid range (0-100)''] else es)
       (if voxel_size_warning sz
        then ws @ [Text '''AcquisitionVoxelSize' is in a warning range (0-1 or 10-100)'']
        else ws)"
  by (simp add: voxel_size_error_def voxel_size_warning_def
      VOXEL_SIZE_MIN_ERROR_THRESHOLD_def VOXEL_SIZE_MAX_ERROR_THRESHOLD_def
      VOXEL_SIZE_MIN_WARNING_THRESHOLD_def VOXEL_SIZE_MAX_WARNING_THRESHOLD_def not_less)

lemma voxel_size_loop_non_number:
  "py_num sz = None \<Longrightarrow> voxel_size_loop (sz # rest) es ws = Inl TypeError"
  by simp

lemma voxel_size_loop_result:
  "voxel_size_loop sizes es ws = Inr (e, w) \<Longrightarrow>
     e = es @ map (\<lambda>_. Text '''AcquisitionVoxelSize' out of valid range (0-100)'')
                (filter voxel_size_error sizes)
     \<and> w = ws @ map (\<lambda>_. Text '''AcquisitionVoxelSize' is in a warning range (0-1 or 10-100)'')
                  (filter voxel_size_warning sizes)"
proof (induction sizes arbitrary: es ws)
  case Nil
  then show ?case by simp
next
  case (Cons sz sizes)
  show ?case
  proof (cases "py_num sz")
    case None
    with Cons.prems show ?thesis
      by (simp only: voxel_size_loop_non_number) simp
  next
    case (Some s)
    from Cons.prems have "voxel_size_loop sizes
       (if voxel_size_error sz
        then es @ [Text '''AcquisitionVoxelSize' out of valid range (0-100)''] else es)
       (if voxel_size_warning sz
        then ws @ [Text '''AcquisitionVoxelSize' is in a warning range (0-1 or 10-100)'']
        else ws) = Inr (e, w)"
      by (simp only: voxel_size_loop_Cons [OF Some])
    from Cons.IH [OF this] show ?thesis
      by (cases "voxel_size_error sz"; cases "voxel_size_warning sz") simp_all
  qed
qed

lemma voxel_bands_exclusive: "\<not> (voxel_size_error sz \<and> voxel_size_warning sz)"
  by (auto simp: voxel_size_error_def voxel_size_warning_def split: option.splits)

lemma validate_voxel_size_malformed:
  "(\<forall>sizes. v = PList sizes \<longrightarrow> length sizes \<noteq> 3) \<Longrightarrow>
   validate_voxel_size v =
     Inr ([Text ''Invalid 'AcquisitionVoxelSize' (should be a list of 3 numbers)''], [], v)"
  by (cases v) (simp_all add: validate_voxel_size_def)

lemma validate_voxel_size_wellformed:
  "length sizes = 3 \<Longrightarrow> validate_voxel_size (PList sizes) = Inr (e, w, x) \<Longrightarrow>
   e = map (\<lambda>_. Text '''AcquisitionVoxelSize' out of valid range (0-100)'')
         (filter voxel_size_error sizes)
   \<and> w = map (\<lambda>_. Text '''AcquisitionVoxelSize' is in a warning range (0-1 or 10-100)'')
           (filter voxel_size_warning sizes)
   \<and> x = PList sizes"
  using voxel_size_loop_result [of sizes "[]" "[]" e w]
  by (simp add: validate_voxel_size_def split: sum.splits prod.splits)

lemma scalar_total_pairs: "validate_total_pairs v = Inr (e, w, x) \<Longrightarrow> e \<noteq> [] \<Longrightarrow> w = []"
  by (auto simp: validate_total_pairs_def split: option.splits if_splits)

lemma scalar_labeling_duration:
  "validate_labeling_duration v = Inr (e, w, x) \<Longrightarrow> e \<noteq> [] \<Longrightarrow> w = []"
  by (auto simp: validate_labeling_duration_def split: option.splits if_splits)

lemma scalar_post_labeling_delay:
  "validate_post_labeling_delay v = Inr (e, w, x) \<Longrightarrow> e \<noteq> [] \<Longrightarrow> w = []"
  by (auto simp: validate_post_labeling_delay_def split: option.splits if_splits)

lemma scalar_inversion_time:
  "validate_inversion_time v = Inr (e, w, x) \<Longrightarrow> w = []"
  by (auto simp: validate_inversion_time_def split: option.splits if_splits)

text \<open>
  C2, as stated, fails for the numeric array: the three sizes are checked one by one,
  so a size outside the hard range and another size in the warning band give an error
  and a warning for \<open>AcquisitionVoxelSize\<close> in the same pass.
\<close>

theorem voxel_size_error_with_warning:
  "validate_voxel_size (PList [PInt (- 1), PFloat (1 / 2), PInt 3]) =
     Inr ([Text '''AcquisitionVoxelSize' out of valid range (0-100)''],
          [Text '''AcquisitionVoxelSize' is in a warning range (0-1 or 10-100)''],
          PList [PInt (- 1), PFloat (1 / 2), PInt 3])"
  by (simp add: validate_voxel_size_def VOXEL_SIZE_MIN_ERROR_THRESHOLD_def
      VOXEL_SIZE_MAX_ERROR_THRESHOLD_def VOXEL_SIZE_MIN_WARNING_THRESHOLD_def
      VOXEL_SIZE_MAX_WARNING_THRESHOLD_def)

text \<open>
  C2, amended. For each scalar numeric rule (total pairs, labeling duration, post
  labeling delay, inversion time) a result with an error has no warning. For the voxel
  sizes the exclusion holds per element: a value that is not a list of three sizes
  gives the one shape error and no warning, and in a list of three numbers every size
  outside \<open>[0, 100]\<close> gives one error, every other size outside \<open>[1, 10]\<close> gives one
  warning, and no size gives both.
\<close>

theorem error_suppresses_warning_per_value:
  "(\<forall>r. validate_total_pairs v = Inr r \<longrightarrow> errors_of r \<noteq> [] \<longrightarrow> warnings_of r = [])
   \<and> (\<forall>r. validate_labeling_duration v = Inr r \<longrightarrow> errors_of r \<noteq> [] \<longrightarrow> warnings_of r = [])
   \<and> (\<forall>r. validate_post_labeling_delay v = Inr r \<longrightarrow> errors_of r \<noteq> [] \<longrightarrow> warnings_of r = [])
   \<and> (\<forall>r. validate_inversion_time v = Inr r \<longrightarrow> warnings_of r = [])
   \<and> ((\<forall>sizes. v = PList sizes \<longrightarrow> length sizes \<noteq> 3) \<longrightarrow>
        validate_voxel_size v =
          Inr ([Text ''Invalid 'AcquisitionVoxelSize' (should be a list of 3 numbers)''], [], v))
   \<and> (\<forall>r. length sizes = 3 \<longrightarrow> validate_voxel_size (PList sizes) = Inr r \<longrightarrow>
          errors_of r =
            map (\<lambda>_. Text '''AcquisitionVoxelSize' out of valid range (0-100)'')
              (filter voxel_size_error sizes)
          \<and> warnings_of r =
            map (\<lambda>_. Text '''AcquisitionVoxelSize' is in a warning range (0-1 or 10-100)'')
              (filter voxel_size_warning sizes))
   \<and> \<not> (voxel_size_error sz \<and> voxel_size_warning sz)"
proof -
  have total_pairs:
    "\<forall>r. validate_total_pairs v = Inr r \<longrightarrow> errors_of r \<noteq> [] \<longrightarrow> warnings_of r = []"
    by (auto simp: errors_of_def warnings_of_def dest: scalar_total_pairs)
  have labeling_duration:
    "\<forall>r. validate_labeling_duration v = Inr r \<longrightarrow> errors_of r \<noteq> [] \<longrightarrow> warnings_of r = []"
    by (auto simp: errors_of_def warnings_of_def dest: scalar_labeling_duration)
  have post_labeling_delay:
    "\<forall>r. validate_post_labeling_delay v = Inr r \<longrightarrow> errors_of r \<noteq> [] \<longrightarrow> warnings_of r = []"
    by (auto simp: errors_of_def warnings_of_def dest: scalar_post_labeling_delay)
  have inversion_time: "\<forall>r. validate_inversion_time v = Inr r \<longrightarrow> warnings_of r = []"
    by (auto simp: warnings_of_def dest: scalar_inversion_time)
  have malformed: "(\<forall>sizes. v = PList sizes \<longrightarrow> length sizes \<noteq> 3) \<longrightarrow>
      validate_voxel_size v =
        Inr ([Text ''Invalid 'AcquisitionVoxelSize' (should be a list of 3 numbers)''], [], v)"
    using validate_voxel_size_malformed [of v] by blast
  have wellformed: "\<forall>r. length sizes = 3 \<longrightarrow> validate_voxel_size (PList sizes) = Inr r \<longrightarrow>
      errors_of r =
        map (\<lambda>_. Text '''AcquisitionVoxelSize' out of valid range (0-100)'')
          (filter voxel_size_error sizes)
      \<and> warnings_of r =
        map (\<lambda>_. Text '''AcquisitionVoxelSize' is in a warning range (0-1 or 10-100)'')
          (filter voxel_size_warning sizes)"
  proof (intro allI impI)
    fix r assume len: "length sizes = 3" and res: "validate_voxel_size (PList sizes) = Inr r"
    obtain e w x where r: "r = (e, w, x)"
      by (cases r)
    from validate_voxel_size_wellformed [OF len res [unfolded r]]
    show "errors_of r =
        map (\<lambda>_. Text '''AcquisitionVoxelSize' out of valid range (0-100)'')
          (filter voxel_size_error sizes)
      \<and> warnings_of r =
        map (\<lambda>_. Text '''AcquisitionVoxelSize' is in a warning range (0-1 or 10-100)'')
          (filter voxel_size_warning sizes)"
      by (simp add: r errors_of_def warnings_of_def)
  qed
  show ?thesis
    by (intro conjI)
      (rule total_pairs labeling_duration post_labeling_delay inversion_time malformed
         wellformed voxel_bands_exclusive)+
qed

theorem error_suppresses_warning_per_value_witness:
  "validate_total_pairs (PInt 150) =
     Inr ([Text '''TotalAcquiredPairs' out of valid range (-1-100)''], [], PInt 150)
   \<and> validate_labeling_duration (PInt 150) =
     Inr ([Text '''LabelingDuration' out of valid range (0-100)''], [], PInt 150)
   \<and> validate_post_labeling_delay (PInt 150) =
     Inr ([Text '''PostLabelingDelay' out of valid range (0-100)''], [], PInt 150)
   \<and> validate_inversion_time (PInt 150) = Inr ([], [], PInt 150)
   \<and> validate_voxel_size (PInt 150) =
     Inr ([Text ''Invalid 'AcquisitionVoxelSize' (should be a list of 3 numbers)''], [], PInt 150)
   \<and> length [PInt 150, PInt 5, PInt 0] = 3
   \<and> validate_voxel_size (PList [PInt 150, PInt 5, PInt 0]) =
     Inr ([Text '''AcquisitionVoxelSize' out of valid range (0-100)''],
          [Text '''AcquisitionVoxelSize' is in a warning range (0-1 or 10-100)''],
          PList [PInt 150, PInt 5, PInt 0])
   \<and> voxel_size_error (PInt 150) \<and> \<not> voxel_size_warning (PInt 150)"
  using error_suppresses_warning_per_value
    [of "PInt 150" "[PInt 150, PInt 5, PInt 0]" "PInt 150"]
  by (simp add: validate_total_pairs_def validate_labeling_duration_def
      validate_post_labeling_delay_def validate_inversion_time_def validate_voxel_size_def
      voxel_size_error_def voxel_size_warning_def
      MIN_PAIRS_ERROR_THRESHOLD_def MAX_PAIRS_ERROR_THRESHOLD_def
      MIN_LABELING_DURATION_ERROR_def MAX_LABELING_DURATION_ERROR_def
      MIN_POST_LABELING_DELAY_ERROR_def MAX_POST_LABELING_DELAY_ERROR_def
      MIN_INVERSION_TIME_ERROR_THRESHOLD_def
      VOXEL_SIZE_MIN_ERROR_THRESHOLD_def VOXEL_SIZE_MAX_ERROR_THRESHOLD_def
      VOXEL_SIZE_MIN_WARNING_THRESHOLD_def VOXEL_SIZE_MAX_WARNING_THRESHOLD_def)

section \<open>The PCASL parameters\<close>









section \<open>One pass of the engine over a schema\<close>

lemma apply_field_values:
  "values_of (apply_field cs d req (f, v) out) g =
     (if g = f \<and> should_apply_validation d (condition_of cs f) then
        (case d f of
           Some raw \<Rightarrow> Some raw
         | None \<Rightarrow> if req then values_of out g else Some (PStr ''Recommended to be specified''))
      else values_of out g)"
  by (cases out) (auto simp: apply_field_def values_of_def Let_def split: prod.splits)

lemma apply_schema_values:
  "values_of (apply_schema s cs d out req) g =
     (if g \<in> fst ` set s \<and> should_apply_validation d (condition_of cs g) then
        (case d g of
           Some raw \<Rightarrow> Some raw
         | None \<Rightarrow> if req then values_of out g else Some (PStr ''Recommended to be specified''))
      else values_of out g)"
proof (induction s arbitrary: out)
  case Nil
  show ?case by simp
next
  case (Cons entry s)
  obtain f v where entry: "entry = (f, v)"
    by (cases entry)
  show ?case
    by (auto simp: entry Cons.IH apply_field_values split: option.splits)
qed

lemma apply_field_errors_absent:
  "d g = None \<Longrightarrow>
   errors_of (apply_field cs d req (f, v) out) g =
     (if g = f \<and> should_apply_validation d (condition_of cs f) \<and> req
      then Some (PStr ''Missing required parameter'') else errors_of out g)"
  by (cases out) (auto simp: apply_field_def errors_of_def Let_def split: prod.splits)

lemma apply_schema_errors_absent:
  "d g = None \<Longrightarrow>
   errors_of (apply_schema s cs d out req) g =
     (if g \<in> fst ` set s \<and> should_apply_validation d (condition_of cs g) \<and> req
      then Some (PStr ''Missing required parameter'') else errors_of out g)"
proof (induction s arbitrary: out)
  case Nil
  show ?case by simp
next
  case (Cons entry s)
  obtain f v where entry: "entry = (f, v)"
    by (cases entry)
  from Cons.prems show ?case
    by (auto simp: entry Cons.IH apply_field_errors_absent)
qed

lemma values_required_pass:
  "values_of (required_pass self d) g =
     (if g \<in> required_fields self \<and> required_applies self d g then d g else None)"
  unfolding required_pass_def apply_schema_values required_fields_def required_applies_def
  by (simp add: values_of_def split: option.splits)

lemma values_validate:
  "values_of (validate self d) g =
     (if g \<in> recommended_fields self \<and> recommended_applies self d g then
        (case d g of Some raw \<Rightarrow> Some raw | None \<Rightarrow> Some (PStr ''Recommended to be specified''))
      else values_of (required_pass self d) g)"
  unfolding validate_def Let_def required_pass_def apply_schema_values
    recommended_fields_def recommended_applies_def
  by simp

lemma errors_validate_absent:
  "d g = None \<Longrightarrow>
   errors_of (validate self d) g =
     (if g \<in> required_fields self \<and> required_applies self d g
      then Some (PStr ''Missing required parameter'') else None)"
  unfolding validate_def Let_def required_fields_def required_applies_def
  by (simp add: apply_schema_errors_absent) (simp add: errors_of_def)

lemma apply_field_errors_present_iff:
  "d g = Some raw \<Longrightarrow>
   errors_of (apply_field cs d req (f, v) out) g \<noteq> None \<longleftrightarrow>
     errors_of out g \<noteq> None
     \<or> (g = f \<and> should_apply_validation d (condition_of cs g) \<and> truthy (fst (v raw)))"
  by (cases out) (auto simp: apply_field_def errors_of_def Let_def split: prod.splits)

lemma apply_schema_errors_present_iff:
  "d g = Some raw \<Longrightarrow>
   errors_of (apply_schema s cs d out req) g \<noteq> None \<longleftrightarrow>
     errors_of out g \<noteq> None
     \<or> (should_apply_validation d (condition_of cs g)
        \<and> (\<exists>v. (g, v) \<in> set s \<and> truthy (fst (v raw))))"
proof (induction s arbitrary: out)
  case Nil
  show ?case by simp
next
  case (Cons entry s)
  obtain f v where entry: "entry = (f, v)"
    by (cases entry)
  have rest: "errors_of (apply_schema s cs d (apply_field cs d req (f, v) out) req) g \<noteq> None \<longleftrightarrow>
      errors_of (apply_field cs d req (f, v) out) g \<noteq> None
      \<or> (should_apply_validation d (condition_of cs g)
         \<and> (\<exists>v. (g, v) \<in> set s \<and> truthy (fst (v raw))))"
    using Cons.prems by (rule Cons.IH)
  have first: "errors_of (apply_field cs d req (f, v) out) g \<noteq> None \<longleftrightarrow>
      errors_of out g \<noteq> None
      \<or> (g = f \<and> should_apply_validation d (condition_of cs g) \<and> truthy (fst (v raw)))"
    using Cons.prems by (rule apply_field_errors_present_iff)
  show ?case
    unfolding entry apply_schema.simps rest first by auto
qed

lemma errors_validate_present_iff:
  "d g = Some raw \<Longrightarrow>
   errors_of (validate self d) g \<noteq> None \<longleftrightarrow>
     (required_applies self d g
      \<and> (\<exists>v. (g, v) \<in> set (required_validator_schema self) \<and> truthy (fst (v raw))))
     \<or> (recommended_applies self d g
        \<and> (\<exists>v. (g, v) \<in> set (recommended_validator_schema self) \<and> truthy (fst (v raw))))"
  unfolding validate_def Let_def required_applies_def recommended_applies_def
  by (simp only: apply_schema_errors_present_iff) (simp add: errors_of_def)

section \<open>The general parameters\<close>

lemma validate_total_pairs_value: "validate_total_pairs v = Inr (e, w, x) \<Longrightarrow> x = v"
  by (auto simp: validate_total_pairs_def split: option.splits if_splits)

lemma validate_voxel_size_value: "validate_voxel_size v = Inr (e, w, x) \<Longrightarrow> x = v"
  by (cases v) (auto simp: validate_voxel_size_def split: sum.splits if_splits)

lemma verify_general_parameters_values:
  assumes "verify_general_parameters data = Inr (errors, warnings, values)"
  shows "values = Map.empty
     (''ArterialSpinLabelingType'' \<mapsto> dict_get_default data ''ArterialSpinLabelingType'' (PStr ''''),
      ''BackgroundSuppression'' \<mapsto>
         (if truthy (dict_get data ''BackgroundSuppression'') then PStr ''Yes'' else PStr ''No''),
      ''MethodForM0bEstimation'' \<mapsto> dict_get_default data ''M0Type'' (PStr ''''),
      ''TotalAcquiredPairs'' \<mapsto> dict_get_default data ''TotalAcquiredPairs'' (PInt (- 1)),
      ''AcquisitionVoxelSize'' \<mapsto> dict_get_default data ''AcquisitionVoxelSize'' (PList []))"
proof -
  obtain e4 w4 v4 where tp:
    "validate_total_pairs (dict_get_default data ''TotalAcquiredPairs'' (PInt (- 1))) = Inr (e4, w4, v4)"
    using assms
    by (cases "validate_total_pairs (dict_get_default data ''TotalAcquiredPairs'' (PInt (- 1)))")
       (auto simp: verify_general_parameters_def Let_def split: prod.splits)
  obtain e5 w5 v5 where vs:
    "validate_voxel_size (dict_get_default data ''AcquisitionVoxelSize'' (PList [])) = Inr (e5, w5, v5)"
    using assms tp
    by (cases "validate_voxel_size (dict_get_default data ''AcquisitionVoxelSize'' (PList []))")
       (auto simp: verify_general_parameters_def Let_def split: prod.splits)
  from assms show ?thesis
    unfolding verify_general_parameters_def Let_def tp vs
      validate_total_pairs_value [OF tp] validate_voxel_size_value [OF vs]
    by (auto simp: validate_asl_type_def validate_background_suppression_def
        validate_m0b_method_def split: prod.splits if_splits)
qed

lemma errors_about_append [simp]:
  "errors_about f (xs @ ys) = errors_about f xs @ errors_about f ys"
  by (simp add: errors_about_def)

lemma errors_about_own: "(\<And>m. m \<in> set es \<Longrightarrow> message_field m = f) \<Longrightarrow> errors_about f es = es"
  by (simp add: errors_about_def)

lemma errors_about_other:
  "(\<And>m. m \<in> set es \<Longrightarrow> message_field m = f') \<Longrightarrow> f \<noteq> f' \<Longrightarrow> errors_about f es = []"
  by (auto simp: errors_about_def)

lemma asl_messages:
  "m \<in> set (errors_of (validate_asl_type v)) \<Longrightarrow> message_field m = ''ArterialSpinLabelingType''"
  by (auto simp: validate_asl_type_def errors_of_def message_field_def split: if_splits)

lemma bs_messages:
  "m \<in> set (errors_of (validate_background_suppression v)) \<Longrightarrow>
     message_field m = ''BackgroundSuppression''"
  by (auto simp: validate_background_suppression_def errors_of_def message_field_def
      split: if_splits)

lemma m0_messages:
  "m \<in> set (errors_of (validate_m0b_method v)) \<Longrightarrow> message_field m = ''M0Type''"
  by (auto simp: validate_m0b_method_def errors_of_def message_field_def split: if_splits)

lemma tp_messages:
  "validate_total_pairs v = Inr (e, w, x) \<Longrightarrow> m \<in> set e \<Longrightarrow>
     message_field m = ''TotalAcquiredPairs''"
  by (auto simp: validate_total_pairs_def message_field_def split: option.splits if_splits)

lemma vs_messages:
  "validate_voxel_size v = Inr (e, w, x) \<Longrightarrow> m \<in> set e \<Longrightarrow>
     message_field m = ''AcquisitionVoxelSize''"
proof (cases "\<exists>sizes. v = PList sizes \<and> length sizes = 3")
  case True
  then obtain sizes where v: "v = PList sizes" and len: "length sizes = 3"
    by blast
  assume "validate_voxel_size v = Inr (e, w, x)" and m: "m \<in> set e"
  from validate_voxel_size_wellformed [OF len this(1) [unfolded v]] m
  show ?thesis
    by (auto simp: message_field_def)
next
  case False
  assume "validate_voxel_size v = Inr (e, w, x)" and m: "m \<in> set e"
  with False validate_voxel_size_malformed [of v] show ?thesis
    by (auto simp: message_field_def)
qed


lemma validate_total_pairs_raises: "(\<exists>x. validate_total_pairs v = Inl x) \<longleftrightarrow> py_num v = None"
  by (auto simp: validate_total_pairs_def split: option.splits)

lemma voxel_size_loop_raises:
  "(\<exists>x. voxel_size_loop sizes es ws = Inl x) \<longleftrightarrow> (\<exists>s \<in> set sizes. py_num s = None)"
proof (induction sizes arbitrary: es ws)
  case Nil
  show ?case by simp
next
  case (Cons sz sizes)
  show ?case
  proof (cases "py_num sz")
    case None
    then show ?thesis by simp
  next
    case (Some s)
    show ?thesis
      unfolding voxel_size_loop_Cons [OF Some] Cons.IH using Some by simp
  qed
qed

lemma validate_voxel_size_raises:
  "(\<exists>x. validate_voxel_size v = Inl x) \<longleftrightarrow>
     (\<exists>sizes. v = PList sizes \<and> length sizes = 3 \<and> (\<exists>s \<in> set sizes. py_num s = None))"
proof (cases v)
  case (PList sizes)
  show ?thesis
    using voxel_size_loop_raises [of sizes "[]" "[]"]
    by (auto simp: PList validate_voxel_size_def split: sum.splits)
qed (simp_all add: validate_voxel_size_def)

lemma unorderable_general_parameter_iff:
  "unorderable_general_parameter data \<longleftrightarrow>
     py_num (dict_get_default data ''TotalAcquiredPairs'' (PInt (- 1))) = None
     \<or> (\<exists>sizes. dict_get_default data ''AcquisitionVoxelSize'' (PList []) = PList sizes
           \<and> length sizes = 3 \<and> (\<exists>s \<in> set sizes. py_num s = None))"
  by (cases "dict_get_default data ''AcquisitionVoxelSize'' (PList [])")
     (simp_all add: unorderable_general_parameter_def list_ex_iff)

lemma verify_general_parameters_raises:
  "(\<exists>x. verify_general_parameters data = Inl x) \<longleftrightarrow> unorderable_general_parameter data"
  using validate_total_pairs_raises [of "dict_get_default data ''TotalAcquiredPairs'' (PInt (- 1))"]
    validate_voxel_size_raises [of "dict_get_default data ''AcquisitionVoxelSize'' (PList [])"]
  unfolding unorderable_general_parameter_iff verify_general_parameters_def Let_def
  by (auto split: prod.splits sum.splits)

lemma verify_general_parameters_errors:
  assumes "verify_general_parameters data = Inr (errors, warnings, values)"
  shows "\<exists>e4 w4 x4 e5 w5 x5.
     validate_total_pairs (dict_get_default data ''TotalAcquiredPairs'' (PInt (- 1))) =
       Inr (e4, w4, x4)
     \<and> validate_voxel_size (dict_get_default data ''AcquisitionVoxelSize'' (PList [])) =
       Inr (e5, w5, x5)
     \<and> errors =
         errors_of (validate_asl_type
           (dict_get_default data ''ArterialSpinLabelingType'' (PStr '''')))
         @ errors_of (validate_background_suppression (dict_get data ''BackgroundSuppression''))
         @ errors_of (validate_m0b_method (dict_get_default data ''M0Type'' (PStr '''')))
         @ e4 @ e5"
  using assms
  unfolding verify_general_parameters_def Let_def
  by (auto simp: errors_of_def split: prod.splits sum.splits)

lemma verify_general_parameters_errors_about:
  assumes "verify_general_parameters data = Inr (errors, warnings, values)"
  shows "errors_about ''ArterialSpinLabelingType'' errors =
      errors_of (validate_asl_type
        (dict_get_default data ''ArterialSpinLabelingType'' (PStr '''')))"
    and "errors_about ''BackgroundSuppression'' errors =
      errors_of (validate_background_suppression (dict_get data ''BackgroundSuppression''))"
    and "errors_about ''M0Type'' errors =
      errors_of (validate_m0b_method (dict_get_default data ''M0Type'' (PStr '''')))"
    and "\<exists>e5 w5 x5.
      validate_voxel_size (dict_get_default data ''AcquisitionVoxelSize'' (PList [])) =
        Inr (e5, w5, x5)
      \<and> errors_about ''AcquisitionVoxelSize'' errors = e5"
proof -
  from verify_general_parameters_errors [OF assms]
  obtain e4 w4 x4 e5 w5 x5 where
    tp: "validate_total_pairs (dict_get_default data ''TotalAcquiredPairs'' (PInt (- 1))) =
       Inr (e4, w4, x4)"
    and vs: "validate_voxel_size (dict_get_default data ''AcquisitionVoxelSize'' (PList [])) =
       Inr (e5, w5, x5)"
    and errors: "errors =
         errors_of (validate_asl_type
           (dict_get_default data ''ArterialSpinLabelingType'' (PStr '''')))
         @ errors_of (validate_background_suppression (dict_get data ''BackgroundSuppression''))
         @ errors_of (validate_m0b_method (dict_get_default data ''M0Type'' (PStr '''')))
         @ e4 @ e5"
    by blast
  note own = errors_about_own [OF asl_messages] errors_about_own [OF bs_messages]
    errors_about_own [OF m0_messages] errors_about_own [OF tp_messages [OF tp]]
    errors_about_own [OF vs_messages [OF vs]]
  note other = errors_about_other [OF asl_messages] errors_about_other [OF bs_messages]
    errors_about_other [OF m0_messages] errors_about_other [OF tp_messages [OF tp]]
    errors_about_other [OF vs_messages [OF vs]]
  show "errors_about ''ArterialSpinLabelingType'' errors =
      errors_of (validate_asl_type
        (dict_get_default data ''ArterialSpinLabelingType'' (PStr '''')))"
    by (simp add: errors own other)
  show "errors_about ''BackgroundSuppression'' errors =
      errors_of (validate_background_suppression (dict_get data ''BackgroundSuppression''))"
    by (simp add: errors own other)
  show "errors_about ''M0Type'' errors =
      errors_of (validate_m0b_method (dict_get_default data ''M0Type'' (PStr '''')))"
    by (simp add: errors own other)
  have "errors_about ''AcquisitionVoxelSize'' errors = e5"
    by (simp add: errors own other)
  with vs show "\<exists>e5 w5 x5.
      validate_voxel_size (dict_get_default data ''AcquisitionVoxelSize'' (PList [])) =
        Inr (e5, w5, x5)
      \<and> errors_about ''AcquisitionVoxelSize'' errors = e5"
    by blast
qed

lemma absent_general_field_errors:
  assumes "verify_general_parameters data = Inr (errors, warnings, values)"
  shows "(data ''ArterialSpinLabelingType'' = None \<longrightarrow>
             errors_about ''ArterialSpinLabelingType'' errors = [InvalidASLType (PStr '''')])
        \<and> (data ''BackgroundSuppression'' = None \<longrightarrow>
             errors_about ''BackgroundSuppression'' errors =
               [Text ''Missing or invalid 'BackgroundSuppression' (should be True or False)''])
        \<and> (data ''M0Type'' = None \<longrightarrow>
             errors_about ''M0Type'' errors =
               [Text (''Missing or invalid 'Method for M0b estimation'' @ [CHR 0x27])])
        \<and> (data ''AcquisitionVoxelSize'' = None \<longrightarrow>
             errors_about ''AcquisitionVoxelSize'' errors =
               [Text ''Invalid 'AcquisitionVoxelSize' (should be a list of 3 numbers)''])"
proof (intro conjI impI)
  assume "data ''ArterialSpinLabelingType'' = None"
  then show "errors_about ''ArterialSpinLabelingType'' errors = [InvalidASLType (PStr '''')]"
    unfolding verify_general_parameters_errors_about(1) [OF assms]
    by (simp add: dict_get_default_def validate_asl_type_def py_in_def VALID_ASL_TYPES_def
        errors_of_def)
next
  assume "data ''BackgroundSuppression'' = None"
  then show "errors_about ''BackgroundSuppression'' errors =
      [Text ''Missing or invalid 'BackgroundSuppression' (should be True or False)'']"
    unfolding verify_general_parameters_errors_about(2) [OF assms]
    by (simp add: dict_get_def validate_background_suppression_def py_in_def errors_of_def)
next
  assume "data ''M0Type'' = None"
  then show "errors_about ''M0Type'' errors =
      [Text (''Missing or invalid 'Method for M0b estimation'' @ [CHR 0x27])]"
    unfolding verify_general_parameters_errors_about(3) [OF assms]
    by (simp add: dict_get_default_def validate_m0b_method_def errors_of_def)
next
  assume "data ''AcquisitionVoxelSize'' = None"
  with verify_general_parameters_errors_about(4) [OF assms]
  show "errors_about ''AcquisitionVoxelSize'' errors =
      [Text ''Invalid 'AcquisitionVoxelSize' (should be a list of 3 numbers)'']"
    by (auto simp: dict_get_default_def validate_voxel_size_def)
qed

section \<open>The engine's outputs\<close>

text \<open>
  C1, as stated, fails: the engine has no inapplicable sentinel. A recommended field whose
  condition is false is skipped, so \<open>values\<close> has no entry for it. Here \<open>VascularCrushing\<close>
  is recommended for PCASL and CASL only and the record is PASL; the field's validator is
  never called.
\<close>

theorem inapplicable_recommended_field_skipped:
  "''VascularCrushing'' \<in> recommended_fields
       \<lparr>required_validator_schema = [(''BackgroundSuppression'', BooleanValidator)],
        required_condition_schema =
          Map.empty(''BackgroundSuppression'' \<mapsto> CondValue (PStr ''all'')),
        recommended_validator_schema = [(''VascularCrushing'', BooleanValidator)],
        recommended_condition_schema =
          Map.empty(''VascularCrushing'' \<mapsto>
            CondDict [(''ArterialSpinLabelingType'', PList [PStr ''PCASL'', PStr ''CASL''])])\<rparr>
   \<and> \<not> recommended_applies
       \<lparr>required_validator_schema = [(''BackgroundSuppression'', BooleanValidator)],
        required_condition_schema =
          Map.empty(''BackgroundSuppression'' \<mapsto> CondValue (PStr ''all'')),
        recommended_validator_schema = [(''VascularCrushing'', BooleanValidator)],
        recommended_condition_schema =
          Map.empty(''VascularCrushing'' \<mapsto>
            CondDict [(''ArterialSpinLabelingType'', PList [PStr ''PCASL'', PStr ''CASL''])])\<rparr>
       (Map.empty(''ArterialSpinLabelingType'' \<mapsto> PStr ''PASL'')) ''VascularCrushing''
   \<and> values_of (validate
       \<lparr>required_validator_schema = [(''BackgroundSuppression'', BooleanValidator)],
        required_condition_schema =
          Map.empty(''BackgroundSuppression'' \<mapsto> CondValue (PStr ''all'')),
        recommended_validator_schema = [(''VascularCrushing'', BooleanValidator)],
        recommended_condition_schema =
          Map.empty(''VascularCrushing'' \<mapsto>
            CondDict [(''ArterialSpinLabelingType'', PList [PStr ''PCASL'', PStr ''CASL''])])\<rparr>
       (Map.empty(''ArterialSpinLabelingType'' \<mapsto> PStr ''PASL''))) ''VascularCrushing'' = None"
  by (simp add: validate_def Let_def apply_field_def condition_of_def values_of_def errors_of_def
      recommended_applies_def recommended_fields_def required_applies_def required_fields_def
      required_pass_def dict_get_def py_in_def BooleanValidator_def)

text \<open>
  C1, amended. For every record and every recommended-schema field whose condition
  evaluates false, the recommended pass stores nothing for the field: its entry in
  \<open>values\<close> is what the required pass left, and there is none when the field is not in the
  required schema. For every recommended-schema field whose condition evaluates true and
  which is absent from the record, \<open>values[field]\<close> is \<open>"Recommended to be specified"\<close>.
\<close>

theorem recommended_field_sentinel:
  "(g \<in> recommended_fields self \<and> \<not> recommended_applies self data g \<longrightarrow>
      values_of (validate self data) g = values_of (required_pass self data) g
      \<and> (g \<notin> required_fields self \<longrightarrow> values_of (validate self data) g = None))
   \<and> (g \<in> recommended_fields self \<and> recommended_applies self data g \<and> data g = None \<longrightarrow>
        values_of (validate self data) g = Some (PStr ''Recommended to be specified''))"
  by (simp add: values_validate values_required_pass)

theorem recommended_field_sentinel_witness:
  "''VascularCrushing'' \<in> recommended_fields
       \<lparr>required_validator_schema = [(''BackgroundSuppression'', BooleanValidator)],
        required_condition_schema =
          Map.empty(''BackgroundSuppression'' \<mapsto> CondValue (PStr ''all'')),
        recommended_validator_schema = [(''VascularCrushing'', BooleanValidator)],
        recommended_condition_schema =
          Map.empty(''VascularCrushing'' \<mapsto>
            CondDict [(''ArterialSpinLabelingType'', PList [PStr ''PCASL'', PStr ''CASL''])])\<rparr>
   \<and> ''VascularCrushing'' \<notin> required_fields
       \<lparr>required_validator_schema = [(''BackgroundSuppression'', BooleanValidator)],
        required_condition_schema =
          Map.empty(''BackgroundSuppression'' \<mapsto> CondValue (PStr ''all'')),
        recommended_validator_schema = [(''VascularCrushing'', BooleanValidator)],
        recommended_condition_schema =
          Map.empty(''VascularCrushing'' \<mapsto>
            CondDict [(''ArterialSpinLabelingType'', PList [PStr ''PCASL'', PStr ''CASL''])])\<rparr>
   \<and> \<not> recommended_applies
       \<lparr>required_validator_schema = [(''BackgroundSuppression'', BooleanValidator)],
        required_condition_schema =
          Map.empty(''BackgroundSuppression'' \<mapsto> CondValue (PStr ''all'')),
        recommended_validator_schema = [(''VascularCrushing'', BooleanValidator)],
        recommended_condition_schema =
          Map.empty(''VascularCrushing'' \<mapsto>
            CondDict [(''ArterialSpinLabelingType'', PList [PStr ''PCASL'', PStr ''CASL''])])\<rparr>
       (Map.empty(''ArterialSpinLabelingType'' \<mapsto> PStr ''PASL'')) ''VascularCrushing''
   \<and> values_of (validate
       \<lparr>required_validator_schema = [(''BackgroundSuppression'', BooleanValidator)],
        required_condition_schema =
          Map.empty(''BackgroundSuppression'' \<mapsto> CondValue (PStr ''all'')),
        recommended_validator_schema = [(''VascularCrushing'', BooleanValidator)],
        recommended_condition_schema =
          Map.empty(''VascularCrushing'' \<mapsto>
            CondDict [(''ArterialSpinLabelingType'', PList [PStr ''PCASL'', PStr ''CASL''])])\<rparr>
       (Map.empty(''ArterialSpinLabelingType'' \<mapsto> PStr ''PASL''))) ''VascularCrushing'' = None
   \<and> recommended_applies
       \<lparr>required_validator_schema = [(''BackgroundSuppression'', BooleanValidator)],
        required_condition_schema =
          Map.empty(''BackgroundSuppression'' \<mapsto> CondValue (PStr ''all'')),
        recommended_validator_schema = [(''VascularCrushing'', BooleanValidator)],
        recommended_condition_schema =
          Map.empty(''VascularCrushing'' \<mapsto>
            CondDict [(''ArterialSpinLabelingType'', PList [PStr ''PCASL'', PStr ''CASL''])])\<rparr>
       (Map.empty(''ArterialSpinLabelingType'' \<mapsto> PStr ''PCASL'')) ''VascularCrushing''
   \<and> (Map.empty(''ArterialSpinLabelingType'' \<mapsto> PStr ''PCASL'')) ''VascularCrushing'' = None
   \<and> values_of (validate
       \<lparr>required_validator_schema = [(''BackgroundSuppression'', BooleanValidator)],
        required_condition_schema =
          Map.empty(''BackgroundSuppression'' \<mapsto> CondValue (PStr ''all'')),
        recommended_validator_schema = [(''VascularCrushing'', BooleanValidator)],
        recommended_condition_schema =
          Map.empty(''VascularCrushing'' \<mapsto>
            CondDict [(''ArterialSpinLabelingType'', PList [PStr ''PCASL'', PStr ''CASL''])])\<rparr>
       (Map.empty(''ArterialSpinLabelingType'' \<mapsto> PStr ''PCASL''))) ''VascularCrushing'' = Some (PStr ''Recommended to be specified'')"
  using recommended_field_sentinel
    [of "''VascularCrushing''"
      "\<lparr>required_validator_schema = [(''BackgroundSuppression'', BooleanValidator)],
        required_condition_schema =
          Map.empty(''BackgroundSuppression'' \<mapsto> CondValue (PStr ''all'')),
        recommended_validator_schema = [(''VascularCrushing'', BooleanValidator)],
        recommended_condition_schema =
          Map.empty(''VascularCrushing'' \<mapsto>
            CondDict [(''ArterialSpinLabelingType'', PList [PStr ''PCASL'', PStr ''CASL''])])\<rparr>"
      "(Map.empty(''ArterialSpinLabelingType'' \<mapsto> PStr ''PASL''))"]
    recommended_field_sentinel
    [of "''VascularCrushing''"
      "\<lparr>required_validator_schema = [(''BackgroundSuppression'', BooleanValidator)],
        required_condition_schema =
          Map.empty(''BackgroundSuppression'' \<mapsto> CondValue (PStr ''all'')),
        recommended_validator_schema = [(''VascularCrushing'', BooleanValidator)],
        recommended_condition_schema =
          Map.empty(''VascularCrushing'' \<mapsto>
            CondDict [(''ArterialSpinLabelingType'', PList [PStr ''PCASL'', PStr ''CASL''])])\<rparr>"
      "(Map.empty(''ArterialSpinLabelingType'' \<mapsto> PStr ''PCASL''))"]
  by (simp add: validate_def Let_def apply_field_def condition_of_def values_of_def errors_of_def
      recommended_applies_def recommended_fields_def required_applies_def required_fields_def
      required_pass_def dict_get_def py_in_def BooleanValidator_def)

text \<open>
  C3, as stated, fails in the domain-rule variant. The record below lacks
  \<open>TotalAcquiredPairs\<close> and \<open>AcquisitionVoxelSize\<close>. \<open>verify_general_parameters\<close> validates
  their defaults \<open>-1\<close> and \<open>[]\<close> and stores both, so both fields are keys of \<open>values\<close>; and the
  only error is the one about the voxel sizes, since \<open>-1\<close> is inside the hard range of
  the total pairs.
\<close>

theorem absent_total_pairs_accepted:
  "(Map.empty(''ArterialSpinLabelingType'' \<mapsto> PStr ''PCASL'',
                   ''BackgroundSuppression'' \<mapsto> PBool True,
                   ''M0Type'' \<mapsto> PStr ''Separate'')) ''TotalAcquiredPairs'' = None
   \<and> (Map.empty(''ArterialSpinLabelingType'' \<mapsto> PStr ''PCASL'',
                   ''BackgroundSuppression'' \<mapsto> PBool True,
                   ''M0Type'' \<mapsto> PStr ''Separate'')) ''AcquisitionVoxelSize'' = None
   \<and> verify_general_parameters
        (Map.empty(''ArterialSpinLabelingType'' \<mapsto> PStr ''PCASL'',
                   ''BackgroundSuppression'' \<mapsto> PBool True,
                   ''M0Type'' \<mapsto> PStr ''Separate'')) =
      Inr ([Text ''Invalid 'AcquisitionVoxelSize' (should be a list of 3 numbers)''], [],
           (Map.empty(''ArterialSpinLabelingType'' \<mapsto> PStr ''PCASL'',
                     ''BackgroundSuppression'' \<mapsto> PStr ''Yes'',
                     ''MethodForM0bEstimation'' \<mapsto> PStr ''Separate'',
                     ''TotalAcquiredPairs'' \<mapsto> PInt (- 1),
                     ''AcquisitionVoxelSize'' \<mapsto> PList [])))"
  by (simp add: verify_general_parameters_def validate_asl_type_def
      validate_background_suppression_def validate_m0b_method_def validate_total_pairs_def
      validate_voxel_size_def dict_get_def dict_get_default_def py_in_def VALID_ASL_TYPES_def
      MIN_PAIRS_ERROR_THRESHOLD_def MAX_PAIRS_ERROR_THRESHOLD_def MAX_PAIRS_WARNING_THRESHOLD_def)

text \<open>
  C3, amended. In the engine, for every record and every required-schema field whose
  condition evaluates true and which is absent from the record, \<open>errors[field]\<close> is the
  missing-parameter message, and the field is a key of \<open>values\<close> exactly when it is also a
  recommended-schema field whose condition evaluates true. In the domain-rule variant,
  \<open>verify_general_parameters\<close> raises \<open>TypeError\<close> exactly when \<open>TotalAcquiredPairs\<close> (or its
  default) is not a number or \<open>AcquisitionVoxelSize\<close> is a list of three with a value that
  is not a number. On every other record it returns; the errors then hold exactly one
  error about each of \<open>ArterialSpinLabelingType\<close>, \<open>BackgroundSuppression\<close>, \<open>M0Type\<close> and
  \<open>AcquisitionVoxelSize\<close> that the record lacks, and \<open>values\<close> has the five keys
  \<open>ArterialSpinLabelingType\<close>, \<open>BackgroundSuppression\<close>, \<open>MethodForM0bEstimation\<close> (for
  \<open>M0Type\<close>), \<open>TotalAcquiredPairs\<close> and \<open>AcquisitionVoxelSize\<close>, each with what its rule returns
  for the record's value or for the default of an absent field.
\<close>

theorem missing_required_field:
  "(g \<in> required_fields self \<and> required_applies self data g \<and> data g = None \<longrightarrow>
      errors_of (validate self data) g = Some (PStr ''Missing required parameter'')
      \<and> (values_of (validate self data) g \<noteq> None \<longleftrightarrow>
           g \<in> recommended_fields self \<and> recommended_applies self data g))
   \<and> ((\<exists>x. verify_general_parameters data = Inl x) \<longleftrightarrow> unorderable_general_parameter data)
   \<and> (\<not> unorderable_general_parameter data \<longrightarrow>
        (\<exists>errors warnings.
           verify_general_parameters data =
             Inr (errors, warnings,
                  Map.empty
             (''ArterialSpinLabelingType'' \<mapsto>
                dict_get_default data ''ArterialSpinLabelingType'' (PStr ''''),
              ''BackgroundSuppression'' \<mapsto>
                (if truthy (dict_get data ''BackgroundSuppression'') then PStr ''Yes''
                 else PStr ''No''),
              ''MethodForM0bEstimation'' \<mapsto> dict_get_default data ''M0Type'' (PStr ''''),
              ''TotalAcquiredPairs'' \<mapsto>
                dict_get_default data ''TotalAcquiredPairs'' (PInt (- 1)),
              ''AcquisitionVoxelSize'' \<mapsto>
                dict_get_default data ''AcquisitionVoxelSize'' (PList [])))
        \<and> (data ''ArterialSpinLabelingType'' = None \<longrightarrow>
             errors_about ''ArterialSpinLabelingType'' errors = [InvalidASLType (PStr '''')])
        \<and> (data ''BackgroundSuppression'' = None \<longrightarrow>
             errors_about ''BackgroundSuppression'' errors =
               [Text ''Missing or invalid 'BackgroundSuppression' (should be True or False)''])
        \<and> (data ''M0Type'' = None \<longrightarrow>
             errors_about ''M0Type'' errors =
               [Text (''Missing or invalid 'Method for M0b estimation'' @ [CHR 0x27])])
        \<and> (data ''AcquisitionVoxelSize'' = None \<longrightarrow>
             errors_about ''AcquisitionVoxelSize'' errors =
               [Text ''Invalid 'AcquisitionVoxelSize' (should be a list of 3 numbers)''])))"
proof (intro conjI impI)
  assume "\<not> unorderable_general_parameter data"
  then obtain errors warnings vals
    where res: "verify_general_parameters data = Inr (errors, warnings, vals)"
    using verify_general_parameters_raises [of data]
    by (cases "verify_general_parameters data") auto
  have vals: "vals = Map.empty
             (''ArterialSpinLabelingType'' \<mapsto>
                dict_get_default data ''ArterialSpinLabelingType'' (PStr ''''),
              ''BackgroundSuppression'' \<mapsto>
                (if truthy (dict_get data ''BackgroundSuppression'') then PStr ''Yes''
                 else PStr ''No''),
              ''MethodForM0bEstimation'' \<mapsto> dict_get_default data ''M0Type'' (PStr ''''),
              ''TotalAcquiredPairs'' \<mapsto>
                dict_get_default data ''TotalAcquiredPairs'' (PInt (- 1)),
              ''AcquisitionVoxelSize'' \<mapsto>
                dict_get_default data ''AcquisitionVoxelSize'' (PList []))"
    by (rule verify_general_parameters_values [OF res])
  from res [unfolded vals] absent_general_field_errors [OF res]
  have "verify_general_parameters data =
             Inr (errors, warnings,
                  Map.empty
             (''ArterialSpinLabelingType'' \<mapsto>
                dict_get_default data ''ArterialSpinLabelingType'' (PStr ''''),
              ''BackgroundSuppression'' \<mapsto>
                (if truthy (dict_get data ''BackgroundSuppression'') then PStr ''Yes''
                 else PStr ''No''),
              ''MethodForM0bEstimation'' \<mapsto> dict_get_default data ''M0Type'' (PStr ''''),
              ''TotalAcquiredPairs'' \<mapsto>
                dict_get_default data ''TotalAcquiredPairs'' (PInt (- 1)),
              ''AcquisitionVoxelSize'' \<mapsto>
                dict_get_default data ''AcquisitionVoxelSize'' (PList [])))
        \<and> (data ''ArterialSpinLabelingType'' = None \<longrightarrow>
             errors_about ''ArterialSpinLabelingType'' errors = [InvalidASLType (PStr '''')])
        \<and> (data ''BackgroundSuppression'' = None \<longrightarrow>
             errors_about ''BackgroundSuppression'' errors =
               [Text ''Missing or invalid 'BackgroundSuppression' (should be True or False)''])
        \<and> (data ''M0Type'' = None \<longrightarrow>
             errors_about ''M0Type'' errors =
               [Text (''Missing or invalid 'Method for M0b estimation'' @ [CHR 0x27])])
        \<and> (data ''AcquisitionVoxelSize'' = None \<longrightarrow>
             errors_about ''AcquisitionVoxelSize'' errors =
               [Text ''Invalid 'AcquisitionVoxelSize' (should be a list of 3 numbers)''])"
    by (rule conjI)
  then show "\<exists>errors warnings.
           verify_general_parameters data =
             Inr (errors, warnings,
                  Map.empty
             (''ArterialSpinLabelingType'' \<mapsto>
                dict_get_default data ''ArterialSpinLabelingType'' (PStr ''''),
              ''BackgroundSuppression'' \<mapsto>
                (if truthy (dict_get data ''BackgroundSuppression'') then PStr ''Yes''
                 else PStr ''No''),
              ''MethodForM0bEstimation'' \<mapsto> dict_get_default data ''M0Type'' (PStr ''''),
              ''TotalAcquiredPairs'' \<mapsto>
                dict_get_default data ''TotalAcquiredPairs'' (PInt (- 1)),
              ''AcquisitionVoxelSize'' \<mapsto>
                dict_get_default data ''AcquisitionVoxelSize'' (PList [])))
        \<and> (data ''ArterialSpinLabelingType'' = None \<longrightarrow>
             errors_about ''ArterialSpinLabelingType'' errors = [InvalidASLType (PStr '''')])
        \<and> (data ''BackgroundSuppression'' = None \<longrightarrow>
             errors_about ''BackgroundSuppression'' errors =
               [Text ''Missing or invalid 'BackgroundSuppression' (should be True or False)''])
        \<and> (data ''M0Type'' = None \<longrightarrow>
             errors_about ''M0Type'' errors =
               [Text (''Missing or invalid 'Method for M0b estimation'' @ [CHR 0x27])])
        \<and> (data ''AcquisitionVoxelSize'' = None \<longrightarrow>
             errors_about ''AcquisitionVoxelSize'' errors =
               [Text ''Invalid 'AcquisitionVoxelSize' (should be a list of 3 numbers)''])"
    by - (rule exI, rule exI, assumption)
next
  show "(\<exists>x. verify_general_parameters data = Inl x) \<longleftrightarrow> unorderable_general_parameter data"
    by (rule verify_general_parameters_raises)
next
  assume "g \<in> required_fields self \<and> required_applies self data g \<and> data g = None"
  then show "errors_of (validate self data) g = Some (PStr ''Missing required parameter'')"
    by (simp add: errors_validate_absent)
next
  assume "g \<in> required_fields self \<and> required_applies self data g \<and> data g = None"
  then show "values_of (validate self data) g \<noteq> None \<longleftrightarrow>
      g \<in> recommended_fields self \<and> recommended_applies self data g"
    by (simp add: values_validate values_required_pass)
qed

theorem missing_required_field_witness:
  "''BackgroundSuppression'' \<in> required_fields
       \<lparr>required_validator_schema = [(''BackgroundSuppression'', BooleanValidator)],
        required_condition_schema =
          Map.empty(''BackgroundSuppression'' \<mapsto> CondValue (PStr ''all'')),
        recommended_validator_schema = [(''VascularCrushing'', BooleanValidator)],
        recommended_condition_schema =
          Map.empty(''VascularCrushing'' \<mapsto>
            CondDict [(''ArterialSpinLabelingType'', PList [PStr ''PCASL'', PStr ''CASL''])])\<rparr>
   \<and> required_applies
       \<lparr>required_validator_schema = [(''BackgroundSuppression'', BooleanValidator)],
        required_condition_schema =
          Map.empty(''BackgroundSuppression'' \<mapsto> CondValue (PStr ''all'')),
        recommended_validator_schema = [(''VascularCrushing'', BooleanValidator)],
        recommended_condition_schema =
          Map.empty(''VascularCrushing'' \<mapsto>
            CondDict [(''ArterialSpinLabelingType'', PList [PStr ''PCASL'', PStr ''CASL''])])\<rparr>
       (Map.empty(''ArterialSpinLabelingType'' \<mapsto> PStr ''PCASL'')) ''BackgroundSuppression''
   \<and> (Map.empty(''ArterialSpinLabelingType'' \<mapsto> PStr ''PCASL'')) ''BackgroundSuppression'' = None
   \<and> errors_of (validate
       \<lparr>required_validator_schema = [(''BackgroundSuppression'', BooleanValidator)],
        required_condition_schema =
          Map.empty(''BackgroundSuppression'' \<mapsto> CondValue (PStr ''all'')),
        recommended_validator_schema = [(''VascularCrushing'', BooleanValidator)],
        recommended_condition_schema =
          Map.empty(''VascularCrushing'' \<mapsto>
            CondDict [(''ArterialSpinLabelingType'', PList [PStr ''PCASL'', PStr ''CASL''])])\<rparr>
       (Map.empty(''ArterialSpinLabelingType'' \<mapsto> PStr ''PCASL''))) ''BackgroundSuppression'' = Some (PStr ''Missing required parameter'')
   \<and> values_of (validate
       \<lparr>required_validator_schema = [(''BackgroundSuppression'', BooleanValidator)],
        required_condition_schema =
          Map.empty(''BackgroundSuppression'' \<mapsto> CondValue (PStr ''all'')),
        recommended_validator_schema = [(''VascularCrushing'', BooleanValidator)],
        recommended_condition_schema =
          Map.empty(''VascularCrushing'' \<mapsto>
            CondDict [(''ArterialSpinLabelingType'', PList [PStr ''PCASL'', PStr ''CASL''])])\<rparr>
       (Map.empty(''ArterialSpinLabelingType'' \<mapsto> PStr ''PCASL''))) ''BackgroundSuppression'' = None
   \<and> \<not> unorderable_general_parameter
       (Map.empty(''ArterialSpinLabelingType'' \<mapsto> PStr ''PCASL'',
                   ''BackgroundSuppression'' \<mapsto> PBool True,
                   ''M0Type'' \<mapsto> PStr ''Separate''))
   \<and> (Map.empty(''ArterialSpinLabelingType'' \<mapsto> PStr ''PCASL'',
                   ''BackgroundSuppression'' \<mapsto> PBool True,
                   ''M0Type'' \<mapsto> PStr ''Separate'')) ''AcquisitionVoxelSize'' = None
   \<and> verify_general_parameters
        (Map.empty(''ArterialSpinLabelingType'' \<mapsto> PStr ''PCASL'',
                   ''BackgroundSuppression'' \<mapsto> PBool True,
                   ''M0Type'' \<mapsto> PStr ''Separate'')) =
      Inr ([Text ''Invalid 'AcquisitionVoxelSize' (should be a list of 3 numbers)''], [],
           (Map.empty(''ArterialSpinLabelingType'' \<mapsto> PStr ''PCASL'',
                     ''BackgroundSuppression'' \<mapsto> PStr ''Yes'',
                     ''MethodForM0bEstimation'' \<mapsto> PStr ''Separate'',
                     ''TotalAcquiredPairs'' \<mapsto> PInt (- 1),
                     ''AcquisitionVoxelSize'' \<mapsto> PList [])))
   \<and> errors_about ''AcquisitionVoxelSize''
        [Text ''Invalid 'AcquisitionVoxelSize' (should be a list of 3 numbers)''] =
      [Text ''Invalid 'AcquisitionVoxelSize' (should be a list of 3 numbers)'']"
  using missing_required_field
    [of "''BackgroundSuppression''"
      "\<lparr>required_validator_schema = [(''BackgroundSuppression'', BooleanValidator)],
        required_condition_schema =
          Map.empty(''BackgroundSuppression'' \<mapsto> CondValue (PStr ''all'')),
        recommended_validator_schema = [(''VascularCrushing'', BooleanValidator)],
        recommended_condition_schema =
          Map.empty(''VascularCrushing'' \<mapsto>
            CondDict [(''ArterialSpinLabelingType'', PList [PStr ''PCASL'', PStr ''CASL''])])\<rparr>"
      "(Map.empty(''ArterialSpinLabelingType'' \<mapsto> PStr ''PCASL''))"]
    missing_required_field
    [of "''BackgroundSuppression''"
      "\<lparr>required_validator_schema = [(''BackgroundSuppression'', BooleanValidator)],
        required_condition_schema =
          Map.empty(''BackgroundSuppression'' \<mapsto> CondValue (PStr ''all'')),
        recommended_validator_schema = [(''VascularCrushing'', BooleanValidator)],
        recommended_condition_schema =
          Map.empty(''VascularCrushing'' \<mapsto>
            CondDict [(''ArterialSpinLabelingType'', PList [PStr ''PCASL'', PStr ''CASL''])])\<rparr>"
      "(Map.empty(''ArterialSpinLabelingType'' \<mapsto> PStr ''PCASL'',
                   ''BackgroundSuppression'' \<mapsto> PBool True,
                   ''M0Type'' \<mapsto> PStr ''Separate''))"]
  by (simp add: validate_def Let_def apply_field_def condition_of_def values_of_def errors_of_def
      recommended_applies_def recommended_fields_def required_applies_def required_fields_def
      required_pass_def dict_get_def py_in_def BooleanValidator_def
      verify_general_parameters_def validate_asl_type_def
      validate_background_suppression_def validate_m0b_method_def validate_total_pairs_def
      validate_voxel_size_def dict_get_default_def VALID_ASL_TYPES_def
      MIN_PAIRS_ERROR_THRESHOLD_def MAX_PAIRS_ERROR_THRESHOLD_def MAX_PAIRS_WARNING_THRESHOLD_def
      unorderable_general_parameter_def errors_about_def message_field_def)

text \<open>
  C4, as stated, fails: a required field that is present is stored in \<open>values\<close> whatever
  its validator reports, so a present field with an error is in both dictionaries. Here
  \<open>BackgroundSuppression\<close> is the string \<open>"true"\<close>, which the Boolean validator rejects. In
  the same result the recommended field \<open>VascularCrushing\<close>, whose condition is false on
  the record, is not in \<open>values\<close>.
\<close>

theorem invalid_required_field_in_errors_and_values:
  "''BackgroundSuppression'' \<in> required_fields
       \<lparr>required_validator_schema = [(''BackgroundSuppression'', BooleanValidator)],
        required_condition_schema =
          Map.empty(''BackgroundSuppression'' \<mapsto> CondValue (PStr ''all'')),
        recommended_validator_schema = [(''VascularCrushing'', BooleanValidator)],
        recommended_condition_schema =
          Map.empty(''VascularCrushing'' \<mapsto>
            CondDict [(''ArterialSpinLabelingType'', PList [PStr ''PCASL'', PStr ''CASL''])])\<rparr>
   \<and> required_applies
       \<lparr>required_validator_schema = [(''BackgroundSuppression'', BooleanValidator)],
        required_condition_schema =
          Map.empty(''BackgroundSuppression'' \<mapsto> CondValue (PStr ''all'')),
        recommended_validator_schema = [(''VascularCrushing'', BooleanValidator)],
        recommended_condition_schema =
          Map.empty(''VascularCrushing'' \<mapsto>
            CondDict [(''ArterialSpinLabelingType'', PList [PStr ''PCASL'', PStr ''CASL''])])\<rparr>
       (Map.empty(''BackgroundSuppression'' \<mapsto> PStr ''true'')) ''BackgroundSuppression''
   \<and> errors_of (validate
       \<lparr>required_validator_schema = [(''BackgroundSuppression'', BooleanValidator)],
        required_condition_schema =
          Map.empty(''BackgroundSuppression'' \<mapsto> CondValue (PStr ''all'')),
        recommended_validator_schema = [(''VascularCrushing'', BooleanValidator)],
        recommended_condition_schema =
          Map.empty(''VascularCrushing'' \<mapsto>
            CondDict [(''ArterialSpinLabelingType'', PList [PStr ''PCASL'', PStr ''CASL''])])\<rparr>
       (Map.empty(''BackgroundSuppression'' \<mapsto> PStr ''true''))) ''BackgroundSuppression'' = Some (PStr ''Value must be true or false'')
   \<and> values_of (validate
       \<lparr>required_validator_schema = [(''BackgroundSuppression'', BooleanValidator)],
        required_condition_schema =
          Map.empty(''BackgroundSuppression'' \<mapsto> CondValue (PStr ''all'')),
        recommended_validator_schema = [(''VascularCrushing'', BooleanValidator)],
        recommended_condition_schema =
          Map.empty(''VascularCrushing'' \<mapsto>
            CondDict [(''ArterialSpinLabelingType'', PList [PStr ''PCASL'', PStr ''CASL''])])\<rparr>
       (Map.empty(''BackgroundSuppression'' \<mapsto> PStr ''true''))) ''BackgroundSuppression'' = Some (PStr ''true'')
   \<and> ''VascularCrushing'' \<in> recommended_fields
       \<lparr>required_validator_schema = [(''BackgroundSuppression'', BooleanValidator)],
        required_condition_schema =
          Map.empty(''BackgroundSuppression'' \<mapsto> CondValue (PStr ''all'')),
        recommended_validator_schema = [(''VascularCrushing'', BooleanValidator)],
        recommended_condition_schema =
          Map.empty(''VascularCrushing'' \<mapsto>
            CondDict [(''ArterialSpinLabelingType'', PList [PStr ''PCASL'', PStr ''CASL''])])\<rparr>
   \<and> values_of (validate
       \<lparr>required_validator_schema = [(''BackgroundSuppression'', BooleanValidator)],
        required_condition_schema =
          Map.empty(''BackgroundSuppression'' \<mapsto> CondValue (PStr ''all'')),
        recommended_validator_schema = [(''VascularCrushing'', BooleanValidator)],
        recommended_condition_schema =
          Map.empty(''VascularCrushing'' \<mapsto>
            CondDict [(''ArterialSpinLabelingType'', PList [PStr ''PCASL'', PStr ''CASL''])])\<rparr>
       (Map.empty(''BackgroundSuppression'' \<mapsto> PStr ''true''))) ''VascularCrushing'' = None"
  by (simp add: validate_def Let_def apply_field_def condition_of_def values_of_def errors_of_def
      recommended_applies_def recommended_fields_def required_applies_def required_fields_def
      required_pass_def dict_get_def py_in_def BooleanValidator_def)

text \<open>
  C4, amended. For every record, a required-schema field whose condition evaluates true
  is in \<open>errors\<close> with the missing-parameter message when the record lacks it, and then in
  \<open>values\<close> exactly when it is also a recommended-schema field whose condition evaluates
  true; when the record has it, it is in \<open>values\<close> with its raw value. A field that the
  record has is in \<open>errors\<close> exactly when a validator that a schema lists for it, under a
  condition that evaluates true, reports an error: the required validator, or the
  recommended one. A recommended-schema field whose condition evaluates true is always
  in \<open>values\<close>, with its raw value or with the sentinel \<open>"Recommended to be specified"\<close>; for
  a field whose recommended condition evaluates false the recommended pass stores
  nothing, so \<open>values\<close> has it only as a present required field whose condition evaluates
  true.
\<close>

theorem validate_errors_values:
  "(g \<in> required_fields self \<and> required_applies self data g \<and> data g = None \<longrightarrow>
      errors_of (validate self data) g = Some (PStr ''Missing required parameter'')
      \<and> (values_of (validate self data) g \<noteq> None \<longleftrightarrow>
           g \<in> recommended_fields self \<and> recommended_applies self data g))
   \<and> (g \<in> required_fields self \<and> required_applies self data g \<and> data g = Some raw \<longrightarrow>
        values_of (validate self data) g = Some raw)
   \<and> (data g = Some raw \<longrightarrow>
        (errors_of (validate self data) g \<noteq> None \<longleftrightarrow>
           (required_applies self data g
            \<and> (\<exists>v. (g, v) \<in> set (required_validator_schema self) \<and> truthy (fst (v raw))))
           \<or> (recommended_applies self data g
              \<and> (\<exists>v. (g, v) \<in> set (recommended_validator_schema self)
                     \<and> truthy (fst (v raw))))))
   \<and> (h \<in> recommended_fields self \<and> recommended_applies self data h \<longrightarrow>
        values_of (validate self data) h =
          Some (case data h of Some raw \<Rightarrow> raw | None \<Rightarrow> PStr ''Recommended to be specified''))
   \<and> (\<not> recommended_applies self data h \<longrightarrow>
        values_of (validate self data) h =
          (if h \<in> required_fields self \<and> required_applies self data h then data h else None))"
proof -
  have present_errors:
    "data g = Some raw \<longrightarrow>
        (errors_of (validate self data) g \<noteq> None \<longleftrightarrow>
           (required_applies self data g
            \<and> (\<exists>v. (g, v) \<in> set (required_validator_schema self) \<and> truthy (fst (v raw))))
           \<or> (recommended_applies self data g
              \<and> (\<exists>v. (g, v) \<in> set (recommended_validator_schema self)
                     \<and> truthy (fst (v raw)))))"
    using errors_validate_present_iff [of data g raw self] by blast
  show ?thesis
    by (intro conjI present_errors)
      (simp_all add: errors_validate_absent values_validate values_required_pass
         split: option.splits)
qed

theorem validate_errors_values_witness:
  "''BackgroundSuppression'' \<in> required_fields
       \<lparr>required_validator_schema = [(''BackgroundSuppression'', BooleanValidator)],
        required_condition_schema =
          Map.empty(''BackgroundSuppression'' \<mapsto> CondValue (PStr ''all'')),
        recommended_validator_schema = [(''VascularCrushing'', BooleanValidator)],
        recommended_condition_schema =
          Map.empty(''VascularCrushing'' \<mapsto>
            CondDict [(''ArterialSpinLabelingType'', PList [PStr ''PCASL'', PStr ''CASL''])])\<rparr>
   \<and> required_applies
       \<lparr>required_validator_schema = [(''BackgroundSuppression'', BooleanValidator)],
        required_condition_schema =
          Map.empty(''BackgroundSuppression'' \<mapsto> CondValue (PStr ''all'')),
        recommended_validator_schema = [(''VascularCrushing'', BooleanValidator)],
        recommended_condition_schema =
          Map.empty(''VascularCrushing'' \<mapsto>
            CondDict [(''ArterialSpinLabelingType'', PList [PStr ''PCASL'', PStr ''CASL''])])\<rparr>
       (Map.empty(''BackgroundSuppression'' \<mapsto> PStr ''true'')) ''BackgroundSuppression''
   \<and> (Map.empty(''BackgroundSuppression'' \<mapsto> PStr ''true'')) ''BackgroundSuppression'' = Some (PStr ''true'')
   \<and> values_of (validate
       \<lparr>required_validator_schema = [(''BackgroundSuppression'', BooleanValidator)],
        required_condition_schema =
          Map.empty(''BackgroundSuppression'' \<mapsto> CondValue (PStr ''all'')),
        recommended_validator_schema = [(''VascularCrushing'', BooleanValidator)],
        recommended_condition_schema =
          Map.empty(''VascularCrushing'' \<mapsto>
            CondDict [(''ArterialSpinLabelingType'', PList [PStr ''PCASL'', PStr ''CASL''])])\<rparr>
       (Map.empty(''BackgroundSuppression'' \<mapsto> PStr ''true''))) ''BackgroundSuppression'' = Some (PStr ''true'')
   \<and> (''BackgroundSuppression'', BooleanValidator) \<in> set (required_validator_schema
       \<lparr>required_validator_schema = [(''BackgroundSuppression'', BooleanValidator)],
        required_condition_schema =
          Map.empty(''BackgroundSuppression'' \<mapsto> CondValue (PStr ''all'')),
        recommended_validator_schema = [(''VascularCrushing'', BooleanValidator)],
        recommended_condition_schema =
          Map.empty(''VascularCrushing'' \<mapsto>
            CondDict [(''ArterialSpinLabelingType'', PList [PStr ''PCASL'', PStr ''CASL''])])\<rparr>)
   \<and> truthy (fst (BooleanValidator (PStr ''true'')))
   \<and> errors_of (validate
       \<lparr>required_validator_schema = [(''BackgroundSuppression'', BooleanValidator)],
        required_condition_schema =
          Map.empty(''BackgroundSuppression'' \<mapsto> CondValue (PStr ''all'')),
        recommended_validator_schema = [(''VascularCrushing'', BooleanValidator)],
        recommended_condition_schema =
          Map.empty(''VascularCrushing'' \<mapsto>
            CondDict [(''ArterialSpinLabelingType'', PList [PStr ''PCASL'', PStr ''CASL''])])\<rparr>
       (Map.empty(''BackgroundSuppression'' \<mapsto> PStr ''true''))) ''BackgroundSuppression'' \<noteq> None
   \<and> (Map.empty(''ArterialSpinLabelingType'' \<mapsto> PStr ''PCASL'')) ''BackgroundSuppression'' = None
   \<and> errors_of (validate
       \<lparr>required_validator_schema = [(''BackgroundSuppression'', BooleanValidator)],
        required_condition_schema =
          Map.empty(''BackgroundSuppression'' \<mapsto> CondValue (PStr ''all'')),
        recommended_validator_schema = [(''VascularCrushing'', BooleanValidator)],
        recommended_condition_schema =
          Map.empty(''VascularCrushing'' \<mapsto>
            CondDict [(''ArterialSpinLabelingType'', PList [PStr ''PCASL'', PStr ''CASL''])])\<rparr>
       (Map.empty(''ArterialSpinLabelingType'' \<mapsto> PStr ''PCASL''))) ''BackgroundSuppression'' = Some (PStr ''Missing required parameter'')
   \<and> values_of (validate
       \<lparr>required_validator_schema = [(''BackgroundSuppression'', BooleanValidator)],
        required_condition_schema =
          Map.empty(''BackgroundSuppression'' \<mapsto> CondValue (PStr ''all'')),
        recommended_validator_schema = [(''VascularCrushing'', BooleanValidator)],
        recommended_condition_schema =
          Map.empty(''VascularCrushing'' \<mapsto>
            CondDict [(''ArterialSpinLabelingType'', PList [PStr ''PCASL'', PStr ''CASL''])])\<rparr>
       (Map.empty(''ArterialSpinLabelingType'' \<mapsto> PStr ''PCASL''))) ''BackgroundSuppression'' = None
   \<and> recommended_applies
       \<lparr>required_validator_schema = [(''BackgroundSuppression'', BooleanValidator)],
        required_condition_schema =
          Map.empty(''BackgroundSuppression'' \<mapsto> CondValue (PStr ''all'')),
        recommended_validator_schema = [(''VascularCrushing'', BooleanValidator)],
        recommended_condition_schema =
          Map.empty(''VascularCrushing'' \<mapsto>
            CondDict [(''ArterialSpinLabelingType'', PList [PStr ''PCASL'', PStr ''CASL''])])\<rparr>
       (Map.empty(''ArterialSpinLabelingType'' \<mapsto> PStr ''PCASL'')) ''VascularCrushing''
   \<and> values_of (validate
       \<lparr>required_validator_schema = [(''BackgroundSuppression'', BooleanValidator)],
        required_condition_schema =
          Map.empty(''BackgroundSuppression'' \<mapsto> CondValue (PStr ''all'')),
        recommended_validator_schema = [(''VascularCrushing'', BooleanValidator)],
        recommended_condition_schema =
          Map.empty(''VascularCrushing'' \<mapsto>
            CondDict [(''ArterialSpinLabelingType'', PList [PStr ''PCASL'', PStr ''CASL''])])\<rparr>
       (Map.empty(''ArterialSpinLabelingType'' \<mapsto> PStr ''PCASL''))) ''VascularCrushing'' = Some (PStr ''Recommended to be specified'')
   \<and> \<not> recommended_applies
       \<lparr>required_validator_schema = [(''BackgroundSuppression'', BooleanValidator)],
        required_condition_schema =
          Map.empty(''BackgroundSuppression'' \<mapsto> CondValue (PStr ''all'')),
        recommended_validator_schema = [(''VascularCrushing'', BooleanValidator)],
        recommended_condition_schema =
          Map.empty(''VascularCrushing'' \<mapsto>
            CondDict [(''ArterialSpinLabelingType'', PList [PStr ''PCASL'', PStr ''CASL''])])\<rparr>
       (Map.empty(''BackgroundSuppression'' \<mapsto> PStr ''true'')) ''VascularCrushing''
   \<and> values_of (validate
       \<lparr>required_validator_schema = [(''BackgroundSuppression'', BooleanValidator)],
        required_condition_schema =
          Map.empty(''BackgroundSuppression'' \<mapsto> CondValue (PStr ''all'')),
        recommended_validator_schema = [(''VascularCrushing'', BooleanValidator)],
        recommended_condition_schema =
          Map.empty(''VascularCrushing'' \<mapsto>
            CondDict [(''ArterialSpinLabelingType'', PList [PStr ''PCASL'', PStr ''CASL''])])\<rparr>
       (Map.empty(''BackgroundSuppression'' \<mapsto> PStr ''true''))) ''VascularCrushing'' = None"
  using validate_errors_values
    [of "''BackgroundSuppression''"
      "\<lparr>required_validator_schema = [(''BackgroundSuppression'', BooleanValidator)],
        required_condition_schema =
          Map.empty(''BackgroundSuppression'' \<mapsto> CondValue (PStr ''all'')),
        recommended_validator_schema = [(''VascularCrushing'', BooleanValidator)],
        recommended_condition_schema =
          Map.empty(''VascularCrushing'' \<mapsto>
            CondDict [(''ArterialSpinLabelingType'', PList [PStr ''PCASL'', PStr ''CASL''])])\<rparr>"
      "(Map.empty(''BackgroundSuppression'' \<mapsto> PStr ''true''))"
      "PStr ''true''" "''VascularCrushing''"]
    validate_errors_values
    [of "''BackgroundSuppression''"
      "\<lparr>required_validator_schema = [(''BackgroundSuppression'', BooleanValidator)],
        required_condition_schema =
          Map.empty(''BackgroundSuppression'' \<mapsto> CondValue (PStr ''all'')),
        recommended_validator_schema = [(''VascularCrushing'', BooleanValidator)],
        recommended_condition_schema =
          Map.empty(''VascularCrushing'' \<mapsto>
            CondDict [(''ArterialSpinLabelingType'', PList [PStr ''PCASL'', PStr ''CASL''])])\<rparr>"
      "(Map.empty(''ArterialSpinLabelingType'' \<mapsto> PStr ''PCASL''))"
      "PStr ''true''" "''VascularCrushing''"]
  by (simp add: validate_def Let_def apply_field_def condition_of_def values_of_def errors_of_def
      recommended_applies_def recommended_fields_def required_applies_def required_fields_def
      required_pass_def dict_get_def py_in_def BooleanValidator_def)

end
